theory Spec2Isabelle
  imports Main
begin

section \<open>Python string operations used by the middleware\<close>

text \<open>\<^verbatim>\<open>s.startswith(p)\<close>.\<close>

fun startswith :: "string \<Rightarrow> string \<Rightarrow> bool" where
  "startswith s [] = True"
| "startswith [] (p # ps) = False"
| "startswith (c # cs) (p # ps) = (c = p \<and> startswith cs ps)"

text \<open>\<^verbatim>\<open>sub in s\<close> for strings: \<open>sub\<close> occurs somewhere in \<open>s\<close>.\<close>

fun str_contains :: "string \<Rightarrow> string \<Rightarrow> bool" where
  "str_contains sub [] = (sub = [])"
| "str_contains sub (c # cs) = (startswith (c # cs) sub \<or> str_contains sub cs)"

text \<open>
  \<^verbatim>\<open>s.split(sep, 1)\<close> for a one-character separator: \<open>None\<close> when the separator
  does not occur (the list then has one element), otherwise the text before the first
  separator and the text after it.
\<close>

fun split_once :: "char \<Rightarrow> string \<Rightarrow> (string \<times> string) option" where
  "split_once sep [] = None"
| "split_once sep (c # cs) =
     (if c = sep then Some ([], cs)
      else (case split_once sep cs of
              None \<Rightarrow> None
            | Some (a, b) \<Rightarrow> Some (c # a, b)))"

text \<open>\<^verbatim>\<open>s.split(sep)[0]\<close>: the text before the first separator, or all of \<open>s\<close>.\<close>

definition split_first :: "char \<Rightarrow> string \<Rightarrow> string" where
  "split_first sep s = takeWhile (\<lambda>c. c \<noteq> sep) s"

text \<open>
  \<^verbatim>\<open>s.lower()\<close>. Only the letters A to Z are mapped; the one use in the source compares
  the result with \<^verbatim>\<open>"bearer"\<close>, and no other character lowers to an ASCII letter
  of that word.
\<close>

definition lower_char :: "char \<Rightarrow> char" where
  "lower_char c =
     (case map_of (zip ''ABCDEFGHIJKLMNOPQRSTUVWXYZ'' ''abcdefghijklmnopqrstuvwxyz'') c of
        None \<Rightarrow> c
      | Some l \<Rightarrow> l)"

definition lower :: "string \<Rightarrow> string" where
  "lower s = map lower_char s"

text \<open>\<^verbatim>\<open>s.strip()\<close>: whitespace removed at both ends.\<close>

definition isspace :: "char \<Rightarrow> bool" where
  "isspace c =
     (c \<in> {CHR 0x09, CHR 0x0A, CHR 0x0B, CHR 0x0C, CHR 0x0D, CHR 0x1C, CHR 0x1D, CHR 0x1E,
            CHR 0x1F, CHR '' '', CHR 0x85, CHR 0xA0})"

definition strip :: "string \<Rightarrow> string" where
  "strip s = rev (dropWhile isspace (rev (dropWhile isspace s)))"

text \<open>\<^verbatim>\<open>str(n)\<close> for an integer: decimal digits, with a minus sign when negative.\<close>

definition digit_char :: "nat \<Rightarrow> char" where
  "digit_char d = ''0123456789'' ! d"

function str_nat :: "nat \<Rightarrow> string" where
  "str_nat n = (if n < 10 then [digit_char n] else str_nat (n div 10) @ [digit_char (n mod 10)])"
  by pat_completeness auto
termination
  by (relation "measure id") auto

declare str_nat.simps [simp del]

definition str_int :: "int \<Rightarrow> string" where
  "str_int i = (if i < 0 then CHR ''-'' # str_nat (nat (- i)) else str_nat (nat i))"

section \<open>The key-value store behind \<^verbatim>\<open>redis.asyncio\<close>\<close>

text \<open>
  The identity snapshot that \<^verbatim>\<open>_validate_token\<close> builds and caches, and the JSON values
  the pipeline stores: the blacklist marker \<^verbatim>\<open>True\<close>, a cached identity, and the
  integer a counter holds.
\<close>

record user_data =
  user_id :: string
  email :: "string option"
  role :: string
  is_verified :: bool

datatype json = JBool bool | JInt int | JUser user_data

text \<open>Python truthiness of a decoded JSON value; the identity dict is never empty.\<close>

fun truthy :: "json \<Rightarrow> bool" where
  "truthy (JBool b) = b"
| "truthy (JInt n) = (n \<noteq> 0)"
| "truthy (JUser u) = True"

datatype command =
    EXISTS string
  | GET string
  | SET string json "int option"
  | DEL string
  | INCRBY string int
  | EXPIRE string int

fun key_of :: "command \<Rightarrow> string" where
  "key_of (EXISTS k) = k"
| "key_of (GET k) = k"
| "key_of (SET k v ex) = k"
| "key_of (DEL k) = k"
| "key_of (INCRBY k n) = k"
| "key_of (EXPIRE k n) = k"

datatype reply = Int_reply int | Bool_reply bool | Val_reply "json option"

text \<open>
  \<^verbatim>\<open>HTTPException(status_code, detail, headers)\<close>, and the exceptions the modelled code
  can meet.
\<close>

record http_exception =
  status_code :: nat
  detail :: string
  exc_headers :: "string \<rightharpoonup> string"

datatype exn =
    ConnectionError
  | ResponseError
  | TypeError
  | AttributeError
  | HTTPException http_exception

text \<open>
  The store: whether it can be reached, the value and the remaining time to live (in
  seconds) of every key, and the commands that have reached it, oldest first.
\<close>

record redis =
  up :: bool
  kv :: "string \<rightharpoonup> json"
  ttl :: "string \<rightharpoonup> int"
  sent :: "command list"

definition remove_key :: "string \<Rightarrow> redis \<Rightarrow> redis" where
  "remove_key k r = r\<lparr>kv := (kv r)(k := None), ttl := (ttl r)(k := None)\<rparr>"

text \<open>
  What one command does on the server. \<^verbatim>\<open>INCRBY\<close> creates an absent counter at the
  amount, and fails on an amount or a value that is not a 64-bit integer and on a sum
  that would leave that range;
  \<^verbatim>\<open>EXPIRE\<close> answers 0 for an absent key, deletes the key for a timeout that is not
  positive and otherwise replaces its time to live; \<^verbatim>\<open>SET\<close> with \<^verbatim>\<open>EX\<close> needs a
  positive timeout and without it clears the time to live.
\<close>

fun apply_command :: "command \<Rightarrow> redis \<Rightarrow> (exn + reply) \<times> redis" where
  "apply_command (EXISTS k) r = (Inr (Int_reply (if kv r k = None then 0 else 1)), r)"
| "apply_command (GET k) r = (Inr (Val_reply (kv r k)), r)"
| "apply_command (SET k v ex) r =
     (case ex of
        None \<Rightarrow> (Inr (Bool_reply True), r\<lparr>kv := (kv r)(k \<mapsto> v), ttl := (ttl r)(k := None)\<rparr>)
      | Some e \<Rightarrow>
          if e \<le> 0 then (Inl ResponseError, r)
          else (Inr (Bool_reply True), r\<lparr>kv := (kv r)(k \<mapsto> v), ttl := (ttl r)(k \<mapsto> e)\<rparr>))"
| "apply_command (DEL k) r =
     (Inr (Int_reply (if kv r k = None then 0 else 1)), remove_key k r)"
| "apply_command (INCRBY k n) r =
     (case kv r k of
        None \<Rightarrow>
          if - (2 ^ 63) \<le> n \<and> n < 2 ^ 63
          then (Inr (Int_reply n), r\<lparr>kv := (kv r)(k \<mapsto> JInt n)\<rparr>)
          else (Inl ResponseError, r)
      | Some (JInt c) \<Rightarrow>
          if - (2 ^ 63) \<le> c \<and> c < 2 ^ 63 \<and> - (2 ^ 63) \<le> c + n \<and> c + n < 2 ^ 63
          then (Inr (Int_reply (c + n)), r\<lparr>kv := (kv r)(k \<mapsto> JInt (c + n))\<rparr>)
          else (Inl ResponseError, r)
      | Some _ \<Rightarrow> (Inl ResponseError, r))"
| "apply_command (EXPIRE k s) r =
     (if kv r k = None then (Inr (Bool_reply False), r)
      else if s \<le> 0 then (Inr (Bool_reply True), remove_key k r)
      else (Inr (Bool_reply True), r\<lparr>ttl := (ttl r)(k \<mapsto> s)\<rparr>))"

text \<open>
  A single call on the client: an unreachable store raises and sees nothing; otherwise
  the command reaches the store and is applied there.
\<close>

definition client_call :: "command \<Rightarrow> redis \<Rightarrow> (exn + reply) \<times> redis" where
  "client_call cmd r =
     (if up r
      then (case apply_command cmd r of (res, r') \<Rightarrow> (res, r'\<lparr>sent := sent r' @ [cmd]\<rparr>))
      else (Inl ConnectionError, r))"

text \<open>
  \<^verbatim>\<open>pipe.execute()\<close>: the queued commands run in order on the server, a failing one
  does not stop the later ones, and the first error is raised once all have run.
\<close>

fun run_queued :: "command list \<Rightarrow> redis \<Rightarrow> (exn + reply) list \<times> redis" where
  "run_queued [] r = ([], r)"
| "run_queued (cmd # cmds) r =
     (case apply_command cmd r of
        (res, r') \<Rightarrow>
          (case run_queued cmds (r'\<lparr>sent := sent r' @ [cmd]\<rparr>) of
             (rs, r'') \<Rightarrow> (res # rs, r'')))"

fun first_error :: "(exn + reply) list \<Rightarrow> exn + reply list" where
  "first_error [] = Inr []"
| "first_error (Inl e # rs) = Inl e"
| "first_error (Inr v # rs) =
     (case first_error rs of Inl e \<Rightarrow> Inl e | Inr vs \<Rightarrow> Inr (v # vs))"

definition pipeline_execute :: "command list \<Rightarrow> redis \<Rightarrow> (exn + reply list) \<times> redis" where
  "pipeline_execute cmds r =
     (if up r
      then (case run_queued cmds r of (rs, r') \<Rightarrow> (first_error rs, r'))
      else (Inl ConnectionError, r))"

text \<open>Time passing on the server: every time to live shrinks, and a key whose time is up is gone.\<close>

definition elapse :: "int \<Rightarrow> redis \<Rightarrow> redis" where
  "elapse s r =
     r\<lparr>kv := (\<lambda>k. case ttl r k of
                   None \<Rightarrow> kv r k
                 | Some t \<Rightarrow> if t \<le> s then None else kv r k),
       ttl := (\<lambda>k. case ttl r k of
                   None \<Rightarrow> None
                 | Some t \<Rightarrow> if t \<le> s then None else Some (t - s))\<rparr>"

definition fresh_store :: redis where
  "fresh_store = \<lparr>up = True, kv = Map.empty, ttl = Map.empty, sent = []\<rparr>"

section \<open>\<^verbatim>\<open>core/redis.py\<close>: the rate limiter\<close>

text \<open>
  \<^verbatim>\<open>RateLimiter.is_allowed\<close>. The body of the \<^verbatim>\<open>try\<close> queues \<^verbatim>\<open>incr(key)\<close> and
  \<^verbatim>\<open>expire(key, window)\<close> on the raw client, executes them and reads
  \<^verbatim>\<open>results[0]\<close>; any exception there is caught and answered with
  \<^verbatim>\<open>(True, limit)\<close>.
\<close>

definition is_allowed_try :: "redis \<Rightarrow> string \<Rightarrow> int \<Rightarrow> int \<Rightarrow> (exn + bool \<times> int) \<times> redis" where
  "is_allowed_try r key limit window =
     (case pipeline_execute [INCRBY key 1, EXPIRE key window] r of
        (Inl e, r') \<Rightarrow> (Inl e, r')
      | (Inr results, r') \<Rightarrow>
          (case results of
             Int_reply current_count # _ \<Rightarrow>
               if current_count \<le> limit then (Inr (True, limit - current_count), r')
               else (Inr (False, 0), r')
           | _ \<Rightarrow> (Inl TypeError, r')))"

definition is_allowed :: "redis \<Rightarrow> string \<Rightarrow> int \<Rightarrow> int \<Rightarrow> (bool \<times> int) \<times> redis" where
  "is_allowed r key limit window =
     (case is_allowed_try r key limit window of
        (Inl e, r') \<Rightarrow> ((True, limit), r')
      | (Inr res, r') \<Rightarrow> (res, r'))"

text \<open>The answers of \<open>n\<close> calls of \<^verbatim>\<open>is_allowed\<close> one after the other on the same key.\<close>

fun successive_calls :: "nat \<Rightarrow> redis \<Rightarrow> string \<Rightarrow> int \<Rightarrow> int \<Rightarrow> (bool \<times> int) list" where
  "successive_calls 0 r key limit window = []"
| "successive_calls (Suc n) r key limit window =
     (case is_allowed r key limit window of
        (res, r') \<Rightarrow> res # successive_calls n r' key limit window)"

section \<open>\<^verbatim>\<open>core/redis.py\<close>: the cache facade\<close>

record RedisCache =
  prefix :: string

definition make_key :: "RedisCache \<Rightarrow> string \<Rightarrow> string" where
  "make_key self key = prefix self @ '':'' @ key"

text \<open>
  Each method sends one command with the prefixed key and swallows every exception.
  \<^verbatim>\<open>get\<close> answers \<open>None\<close> for an absent key and for a failure alike.
\<close>

definition cache_get :: "RedisCache \<Rightarrow> string \<Rightarrow> redis \<Rightarrow> json option \<times> redis" where
  "cache_get self key r =
     (case client_call (GET (make_key self key)) r of
        (Inr (Val_reply (Some v)), r') \<Rightarrow> (Some v, r')
      | (_, r') \<Rightarrow> (None, r'))"

definition cache_set :: "RedisCache \<Rightarrow> string \<Rightarrow> json \<Rightarrow> int option \<Rightarrow> redis \<Rightarrow> bool \<times> redis" where
  "cache_set self key v expire r =
     (case client_call (SET (make_key self key) v expire) r of
        (Inr _, r') \<Rightarrow> (True, r')
      | (Inl e, r') \<Rightarrow> (False, r'))"

definition cache_delete :: "RedisCache \<Rightarrow> string \<Rightarrow> redis \<Rightarrow> bool \<times> redis" where
  "cache_delete self key r =
     (case client_call (DEL (make_key self key)) r of
        (Inr _, r') \<Rightarrow> (True, r')
      | (Inl e, r') \<Rightarrow> (False, r'))"

definition cache_exists :: "RedisCache \<Rightarrow> string \<Rightarrow> redis \<Rightarrow> bool \<times> redis" where
  "cache_exists self key r =
     (case client_call (EXISTS (make_key self key)) r of
        (Inr (Int_reply n), r') \<Rightarrow> (n \<noteq> 0, r')
      | (Inr (Bool_reply b), r') \<Rightarrow> (b, r')
      | (Inr (Val_reply v), r') \<Rightarrow> (v \<noteq> None, r')
      | (Inl e, r') \<Rightarrow> (False, r'))"

definition cache_increment :: "RedisCache \<Rightarrow> string \<Rightarrow> int \<Rightarrow> redis \<Rightarrow> int option \<times> redis" where
  "cache_increment self key amount r =
     (case client_call (INCRBY (make_key self key) amount) r of
        (Inr (Int_reply n), r') \<Rightarrow> (Some n, r')
      | (_, r') \<Rightarrow> (None, r'))"

definition cache_expire :: "RedisCache \<Rightarrow> string \<Rightarrow> int \<Rightarrow> redis \<Rightarrow> bool \<times> redis" where
  "cache_expire self key seconds r =
     (case client_call (EXPIRE (make_key self key) seconds) r of
        (Inr (Bool_reply b), r') \<Rightarrow> (b, r')
      | (Inr (Int_reply n), r') \<Rightarrow> (n \<noteq> 0, r')
      | (_, r') \<Rightarrow> (False, r'))"

text \<open>The global instance \<^verbatim>\<open>cache = RedisCache()\<close>, with the default prefix.\<close>

definition cache :: RedisCache where
  "cache = \<lparr>prefix = ''predictpesa''\<rparr>"

section \<open>Requests, responses and settings\<close>

text \<open>
  A request as the middleware reads it: method, path, the headers it looks up, the peer
  address (\<open>None\<close> when \<^verbatim>\<open>request.client\<close> is missing) and the attributes of
  \<^verbatim>\<open>request.state\<close> (\<open>None\<close> when unset).
\<close>

record request =
  "method" :: string
  path :: string
  authorization :: "string option"
  x_forwarded_for :: "string option"
  x_real_ip :: "string option"
  x_request_id :: "string option"
  client_host :: "string option"
  state_user :: "json option"
  state_user_id :: "string option"
  state_request_id :: "string option"

text \<open>
  A response: its status, the headers the modelled code sets on it, and its body, which
  is a JSON object (its members in order) or, in debug mode, Starlette's traceback page
  for an exception.
\<close>

datatype body = Json "(string \<times> string) list" | Traceback exn

record response =
  status :: nat
  headers :: "string \<rightharpoonup> string"
  body :: body

text \<open>
  What a \<^verbatim>\<open>dispatch\<close> (or the application below it) hands back: a response, an
  exception it raised, or an \<^verbatim>\<open>HTTPException\<close> object it returned as its value.
\<close>

datatype outcome = Response response | Raised exn | Returned http_exception

type_synonym app = "request \<Rightarrow> redis \<Rightarrow> outcome \<times> redis"

record settings =
  debug :: bool
  is_production :: bool
  prometheus_enabled :: bool
  access_token_expire_minutes :: int
  rate_limit_requests_per_minute :: int
  rate_limit_burst :: int

section \<open>\<^verbatim>\<open>middleware/auth.py\<close>\<close>

text \<open>
  \<^verbatim>\<open>jwt.decode(token, secret_key, algorithms=[algorithm])\<close> belongs to the PyJWT
  library: it is a parameter of the model, a function from the token to the claims or to
  the exception raised.
\<close>

record claims =
  sub :: "string option"
  exp :: "int option"
  email_claim :: "string option"
  role_claim :: "string option"
  is_verified_claim :: "bool option"

datatype jwt_result =
    Decoded claims
  | ExpiredSignatureError
  | InvalidTokenError
  | OtherError

definition EXEMPT_PATHS :: "string set" where
  "EXEMPT_PATHS =
     {''/'', ''/health'', ''/health/detailed'', ''/metrics'', ''/docs'', ''/redoc'',
      ''/openapi.json'', ''/api/v1/auth/register'', ''/api/v1/auth/login'',
      ''/api/v1/markets/''}"

definition exempt_patterns :: "string list" where
  "exempt_patterns = [''/api/v1/markets/'']"

definition Auth_is_exempt_path :: "string \<Rightarrow> bool" where
  "Auth_is_exempt_path p =
     (if p \<in> EXEMPT_PATHS then True
      else list_ex (\<lambda>pattern. startswith p pattern) exempt_patterns)"

definition requires_auth :: "string \<Rightarrow> bool" where
  "requires_auth p = startswith p ''/api/v1/''"

definition extract_token :: "request \<Rightarrow> string option" where
  "extract_token req =
     (case authorization req of
        None \<Rightarrow> None
      | Some a \<Rightarrow>
          if a = [] then None
          else (case split_once CHR '' '' a of
                  None \<Rightarrow> None
                | Some (scheme, token) \<Rightarrow>
                    if lower scheme \<noteq> ''bearer'' then None else Some token))"

text \<open>\<^verbatim>\<open>if x:\<close> for an optional JSON value.\<close>

definition is_true :: "json option \<Rightarrow> bool" where
  "is_true x = (case x of None \<Rightarrow> False | Some v \<Rightarrow> truthy v)"

definition validate_token :: "(string \<Rightarrow> jwt_result) \<Rightarrow> string \<Rightarrow> redis \<Rightarrow> json option \<times> redis" where
  "validate_token jwt_decode token r =
     (let blacklist_key = ''blacklist:'' @ token in
      case cache_exists cache blacklist_key r of
        (True, r1) \<Rightarrow> (None, r1)
      | (False, r1) \<Rightarrow>
          (case jwt_decode token of
             Decoded payload \<Rightarrow>
               (case sub payload of
                  None \<Rightarrow> (None, r1)
                | Some uid \<Rightarrow>
                    if uid = [] then (None, r1)
                    else if exp payload = None \<or> exp payload = Some 0 then (None, r1)
                    else
                      (let cache_key = ''user:'' @ uid in
                       case cache_get cache cache_key r1 of
                         (cached, r2) \<Rightarrow>
                           if is_true cached then (cached, r2)
                           else
                             (let fresh = JUser \<lparr>user_id = uid,
                                                 email = email_claim payload,
                                                 role = (case role_claim payload of
                                                           None \<Rightarrow> ''user'' | Some ro \<Rightarrow> ro),
                                                 is_verified = (case is_verified_claim payload of
                                                                  None \<Rightarrow> False | Some b \<Rightarrow> b)\<rparr>
                              in case cache_set cache cache_key fresh (Some 300) r2 of
                                   (ok, r3) \<Rightarrow> (Some fresh, r3))))
           | ExpiredSignatureError \<Rightarrow> (None, r1)
           | InvalidTokenError \<Rightarrow> (None, r1)
           | OtherError \<Rightarrow> (None, r1)))"

definition unauthorized_response :: http_exception where
  "unauthorized_response =
     \<lparr>status_code = 401,
      detail = ''Invalid or missing authentication token'',
      exc_headers = [''WWW-Authenticate'' \<mapsto> ''Bearer'']\<rparr>"

text \<open>
  \<^verbatim>\<open>AuthMiddleware.dispatch\<close>. A rejection is the value of
  \<^verbatim>\<open>_unauthorized_response()\<close>, returned. \<^verbatim>\<open>user_data.get("user_id")\<close> needs a
  dict: on another true value it raises \<^verbatim>\<open>AttributeError\<close>.
\<close>

definition Auth_dispatch :: "(string \<Rightarrow> jwt_result) \<Rightarrow> request \<Rightarrow> redis \<Rightarrow> app \<Rightarrow> outcome \<times> redis" where
  "Auth_dispatch jwt_decode req r call_next =
     (if Auth_is_exempt_path (path req) then call_next req r
      else
        (case extract_token req of
           Some (c # cs) \<Rightarrow>
             (case validate_token jwt_decode (c # cs) r of
                (user_data, r') \<Rightarrow>
                  if is_true user_data then
                    (case user_data of
                       Some (JUser u) \<Rightarrow>
                         call_next (req\<lparr>state_user := user_data,
                                        state_user_id := Some (user_id u)\<rparr>) r'
                     | _ \<Rightarrow> (Raised AttributeError, r'))
                  else (Returned unauthorized_response, r'))
         | _ \<Rightarrow>
             if requires_auth (path req) then (Returned unauthorized_response, r)
             else call_next req r))"

section \<open>\<^verbatim>\<open>middleware/rate_limit.py\<close>\<close>

record rate_limit_middleware =
  requests_per_minute :: int
  burst :: int

text \<open>\<^verbatim>\<open>__init__\<close>: \<^verbatim>\<open>x or default\<close> takes the default for \<open>None\<close> and for 0.\<close>

definition RateLimit_init :: "settings \<Rightarrow> int option \<Rightarrow> int option \<Rightarrow> rate_limit_middleware" where
  "RateLimit_init cfg rpm b =
     \<lparr>requests_per_minute =
        (case rpm of None \<Rightarrow> rate_limit_requests_per_minute cfg
         | Some n \<Rightarrow> if n = 0 then rate_limit_requests_per_minute cfg else n),
      burst =
        (case b of None \<Rightarrow> rate_limit_burst cfg
         | Some n \<Rightarrow> if n = 0 then rate_limit_burst cfg else n)\<rparr>"

definition RateLimit_is_exempt_path :: "string \<Rightarrow> bool" where
  "RateLimit_is_exempt_path p = (p \<in> {''/health'', ''/health/detailed'', ''/metrics''})"

definition get_client_ip :: "request \<Rightarrow> string" where
  "get_client_ip req =
     (case x_forwarded_for req of
        Some (c # cs) \<Rightarrow> strip (split_first CHR '','' (c # cs))
      | _ \<Rightarrow>
          (case x_real_ip req of
             Some (c # cs) \<Rightarrow> c # cs
           | _ \<Rightarrow> (case client_host req of Some h \<Rightarrow> h | None \<Rightarrow> ''unknown'')))"

definition get_client_id :: "request \<Rightarrow> string" where
  "get_client_id req =
     (case state_user_id req of
        Some (c # cs) \<Rightarrow> ''user:'' @ (c # cs)
      | _ \<Rightarrow> ''ip:'' @ get_client_ip req)"

definition get_limits_for_path :: "rate_limit_middleware \<Rightarrow> string \<Rightarrow> string \<Rightarrow> int \<times> int" where
  "get_limits_for_path self p m =
     (let default_limit = requests_per_minute self; window = 60 in
      if m \<in> set [''POST'', ''PUT'', ''DELETE''] then
        (if str_contains ''/markets/create'' p then (5, window)
         else if str_contains ''/stakes/create'' p then (10, window)
         else if str_contains ''/auth/'' p then (5, window)
         else (default_limit div 2, window))
      else if m = ''GET'' then
        (if str_contains ''/markets/'' p then (default_limit * 2, window)
         else (default_limit, window))
      else (default_limit, window))"

text \<open>
  \<^verbatim>\<open>_check_rate_limit\<close>. \<^verbatim>\<open>is_allowed\<close> catches its own exceptions, so the
  \<^verbatim>\<open>except\<close> branch here has nothing left to catch.
\<close>

definition check_rate_limit :: "rate_limit_middleware \<Rightarrow> string \<Rightarrow> request \<Rightarrow> redis \<Rightarrow> (bool \<times> int) \<times> redis" where
  "check_rate_limit self client_id req r =
     (case get_limits_for_path self (path req) (method req) of
        (limit, window) \<Rightarrow>
          (let rate_limit_key = ''rate_limit:'' @ client_id @ '':'' @ path req
           in is_allowed r rate_limit_key limit window))"

definition too_many_requests :: "rate_limit_middleware \<Rightarrow> http_exception" where
  "too_many_requests self =
     \<lparr>status_code = 429,
      detail = ''Rate limit exceeded. Please try again later.'',
      exc_headers = [''X-RateLimit-Limit'' \<mapsto> str_int (requests_per_minute self),
                     ''X-RateLimit-Remaining'' \<mapsto> ''0'',
                     ''X-RateLimit-Reset'' \<mapsto> ''60'']\<rparr>"

text \<open>
  The three assignments \<^verbatim>\<open>response.headers[...] = ...\<close> after \<^verbatim>\<open>call_next\<close>. An
  exception raised below passes through; an \<^verbatim>\<open>HTTPException\<close> object handed back as a
  value has a \<^verbatim>\<open>headers\<close> dict of its own, which takes the assignments.
\<close>

definition set_header :: "string \<Rightarrow> string \<Rightarrow> outcome \<Rightarrow> outcome" where
  "set_header name v out =
     (case out of
        Response resp \<Rightarrow> Response (resp\<lparr>headers := (headers resp)(name \<mapsto> v)\<rparr>)
      | Returned e \<Rightarrow> Returned (e\<lparr>exc_headers := (exc_headers e)(name \<mapsto> v)\<rparr>)
      | Raised e \<Rightarrow> Raised e)"

definition RateLimit_dispatch :: "rate_limit_middleware \<Rightarrow> request \<Rightarrow> redis \<Rightarrow> app \<Rightarrow> outcome \<times> redis" where
  "RateLimit_dispatch self req r call_next =
     (if RateLimit_is_exempt_path (path req) then call_next req r
      else
        (let client_id = get_client_id req in
         case check_rate_limit self client_id req r of
           ((allowed, remaining), r') \<Rightarrow>
             if \<not> allowed then (Raised (HTTPException (too_many_requests self)), r')
             else
               (case call_next req r' of
                  (out, r'') \<Rightarrow>
                    (set_header ''X-RateLimit-Reset'' ''60''
                       (set_header ''X-RateLimit-Remaining'' (str_int remaining)
                          (set_header ''X-RateLimit-Limit'' (str_int (requests_per_minute self)) out)),
                     r''))))"

section \<open>\<^verbatim>\<open>middleware/request_id.py\<close>\<close>

text \<open>
  \<^verbatim>\<open>str(uuid.uuid4())\<close> is random: the identifier it would produce is an argument.
\<close>

definition get_or_generate_request_id :: "string \<Rightarrow> request \<Rightarrow> string" where
  "get_or_generate_request_id uuid4 req =
     (case x_request_id req of
        Some (c # cs) \<Rightarrow> c # cs
      | _ \<Rightarrow> uuid4)"

definition RequestID_dispatch :: "string \<Rightarrow> request \<Rightarrow> redis \<Rightarrow> app \<Rightarrow> outcome \<times> redis" where
  "RequestID_dispatch uuid4 req r call_next =
     (let request_id = get_or_generate_request_id uuid4 req in
      case call_next (req\<lparr>state_request_id := Some request_id\<rparr>) r of
        (out, r') \<Rightarrow> (set_header ''X-Request-ID'' request_id out, r'))"

section \<open>\<^verbatim>\<open>main.py\<close>: the middleware stack\<close>

datatype middleware =
    CORSMiddleware
  | TrustedHostMiddleware
  | RequestIDMiddleware
  | RateLimitMiddleware
  | AuthMiddleware
  | MetricsMiddleware

text \<open>
  Starlette's \<^verbatim>\<open>add_middleware\<close> is
  \<^verbatim>\<open>self.user_middleware.insert(0, Middleware(...))\<close>: the class added last stands
  first in the list.
\<close>

definition add_middleware :: "middleware \<Rightarrow> middleware list \<Rightarrow> middleware list" where
  "add_middleware m user_middleware = m # user_middleware"

text \<open>The calls of \<^verbatim>\<open>create_application\<close>, in the order of the source.\<close>

definition create_application :: "settings \<Rightarrow> middleware list" where
  "create_application cfg =
     (let um = add_middleware CORSMiddleware [];
          um = (if is_production cfg then add_middleware TrustedHostMiddleware um else um);
          um = add_middleware RequestIDMiddleware um;
          um = add_middleware RateLimitMiddleware um;
          um = add_middleware AuthMiddleware um;
          um = (if prometheus_enabled cfg then add_middleware MetricsMiddleware um else um)
      in um)"

text \<open>
  What the code takes from outside: \<^verbatim>\<open>jwt.decode\<close>, the identifier
  \<^verbatim>\<open>uuid.uuid4()\<close> produces, and Python's \<^verbatim>\<open>str(exc)\<close> for an exception.
\<close>

record environment =
  jwt_decode :: "string \<Rightarrow> jwt_result"
  uuid4 :: string
  exc_str :: "exn \<Rightarrow> string"

text \<open>
  The dispatch of one middleware class. The metrics middleware only counts and forwards;
  CORS and trusted-host checking are library code and are taken to forward the request.
\<close>

definition dispatch_of :: "settings \<Rightarrow> environment \<Rightarrow> middleware \<Rightarrow> request \<Rightarrow> redis \<Rightarrow> app \<Rightarrow> outcome \<times> redis" where
  "dispatch_of cfg env m req r call_next =
     (case m of
        RequestIDMiddleware \<Rightarrow> RequestID_dispatch (uuid4 env) req r call_next
      | RateLimitMiddleware \<Rightarrow> RateLimit_dispatch (RateLimit_init cfg None None) req r call_next
      | AuthMiddleware \<Rightarrow> Auth_dispatch (jwt_decode env) req r call_next
      | _ \<Rightarrow> call_next req r)"

text \<open>
  Starlette's \<^verbatim>\<open>BaseHTTPMiddleware.__call__\<close> awaits \<^verbatim>\<open>dispatch\<close> and then calls what it
  returned as an ASGI application (\<^verbatim>\<open>await response(scope, receive, send)\<close>). A
  response object sends itself; an \<^verbatim>\<open>HTTPException\<close> object is not callable, so the
  call raises \<^verbatim>\<open>TypeError\<close>. An exception raised by \<^verbatim>\<open>dispatch\<close> goes up as it is.
\<close>

definition base_http_middleware :: "(request \<Rightarrow> redis \<Rightarrow> app \<Rightarrow> outcome \<times> redis) \<Rightarrow> app \<Rightarrow> app" where
  "base_http_middleware dispatch inner req r =
     (case dispatch req r inner of
        (Response resp, r') \<Rightarrow> (Response resp, r')
      | (Raised e, r') \<Rightarrow> (Raised e, r')
      | (Returned e, r') \<Rightarrow> (Raised TypeError, r'))"

text \<open>
  Starlette's \<^verbatim>\<open>build_middleware_stack\<close> wraps the router in the middleware of the list
  from its last entry to its first (\<^verbatim>\<open>for cls, args, kwargs in reversed(middleware):
  app = cls(app, ...)\<close>), so the first entry is the outermost and meets the request first.
  The four classes of this repository derive from \<^verbatim>\<open>BaseHTTPMiddleware\<close>.
\<close>

fun build_middleware_stack :: "settings \<Rightarrow> environment \<Rightarrow> middleware list \<Rightarrow> app \<Rightarrow> app" where
  "build_middleware_stack cfg env [] router = router"
| "build_middleware_stack cfg env (m # ms) router =
     (if m = CORSMiddleware \<or> m = TrustedHostMiddleware
      then build_middleware_stack cfg env ms router
      else base_http_middleware (dispatch_of cfg env m)
             (build_middleware_stack cfg env ms router))"

definition is_pipeline_stage :: "middleware \<Rightarrow> bool" where
  "is_pipeline_stage m = (m \<in> {RequestIDMiddleware, RateLimitMiddleware, AuthMiddleware})"

text \<open>The order in which the three stages meet a request, first to last.\<close>

definition stage_order :: "settings \<Rightarrow> middleware list" where
  "stage_order cfg = filter is_pipeline_stage (create_application cfg)"

definition pipeline :: "settings \<Rightarrow> environment \<Rightarrow> app \<Rightarrow> app" where
  "pipeline cfg env router = build_middleware_stack cfg env (create_application cfg) router"

text \<open>
  Below the user middleware stands the exception middleware, where FastAPI's handler turns
  an \<^verbatim>\<open>HTTPException\<close> raised by a route into the response
  \<^verbatim>\<open>JSONResponse({"detail": exc.detail}, status_code, headers)\<close>. Any other exception
  goes up.
\<close>

definition exception_middleware :: "app \<Rightarrow> app" where
  "exception_middleware inner req r =
     (case inner req r of
        (Raised (HTTPException e), r') \<Rightarrow>
          (Response \<lparr>status = status_code e, headers = exc_headers e,
                     body = Json [(''detail'', detail e)]\<rparr>, r')
      | (out, r') \<Rightarrow> (out, r'))"

text \<open>\<^verbatim>\<open>type(exc).__name__\<close>.\<close>

fun exc_type :: "exn \<Rightarrow> string" where
  "exc_type ConnectionError = ''ConnectionError''"
| "exc_type ResponseError = ''ResponseError''"
| "exc_type TypeError = ''TypeError''"
| "exc_type AttributeError = ''AttributeError''"
| "exc_type (HTTPException e) = ''HTTPException''"

text \<open>\<^verbatim>\<open>global_exception_handler\<close> of \<^verbatim>\<open>main.py\<close>, registered for \<^verbatim>\<open>Exception\<close>.\<close>

definition global_exception_handler :: "settings \<Rightarrow> environment \<Rightarrow> exn \<Rightarrow> response" where
  "global_exception_handler cfg env exc =
     (if debug cfg then
        \<lparr>status = 500, headers = Map.empty,
         body = Json [(''error'', ''Internal server error''), (''detail'', exc_str env exc),
                      (''type'', exc_type exc)]\<rparr>
      else
        \<lparr>status = 500, headers = Map.empty,
         body = Json [(''error'', ''Internal server error''),
                      (''message'', ''An unexpected error occurred'')]\<rparr>)"

text \<open>
  Above the user middleware stands Starlette's \<^verbatim>\<open>ServerErrorMiddleware\<close>, which gets
  the handler registered for \<^verbatim>\<open>Exception\<close>: whatever exception leaves the stack is
  answered with status 500, by the traceback page when the application runs in debug
  mode and by the handler otherwise. A value that is no response counts as the
  \<^verbatim>\<open>TypeError\<close> its call would raise.
\<close>

definition server_error_middleware :: "settings \<Rightarrow> environment \<Rightarrow> app \<Rightarrow> app" where
  "server_error_middleware cfg env inner req r =
     (case inner req r of
        (Response resp, r') \<Rightarrow> (Response resp, r')
      | (Raised e, r') \<Rightarrow>
          (Response (if debug cfg
                     then \<lparr>status = 500, headers = Map.empty, body = Traceback e\<rparr>
                     else global_exception_handler cfg env e), r')
      | (Returned e, r') \<Rightarrow>
          (Response (if debug cfg
                     then \<lparr>status = 500, headers = Map.empty, body = Traceback TypeError\<rparr>
                     else global_exception_handler cfg env TypeError), r'))"

text \<open>The application that \<^verbatim>\<open>create_application\<close> returns, around a router.\<close>

definition application :: "settings \<Rightarrow> environment \<Rightarrow> app \<Rightarrow> app" where
  "application cfg env router =
     server_error_middleware cfg env (pipeline cfg env (exception_middleware router))"

section \<open>\<^verbatim>\<open>api/deps.py\<close>\<close>

text \<open>
  \<^verbatim>\<open>get_current_user\<close> reads \<^verbatim>\<open>request.state.user\<close> and raises 401 when it is unset
  or carries no user id.
\<close>

definition get_current_user :: "request \<Rightarrow> exn + user_data" where
  "get_current_user req =
     (if \<not> is_true (state_user req) then
        Inl (HTTPException \<lparr>status_code = 401, detail = ''Authentication required'',
                            exc_headers = Map.empty\<rparr>)
      else
        (case state_user req of
           Some (JUser u) \<Rightarrow>
             if user_id u = [] then
               Inl (HTTPException \<lparr>status_code = 401, detail = ''Invalid user data'',
                                   exc_headers = Map.empty\<rparr>)
             else Inr u
         | _ \<Rightarrow> Inl AttributeError))"

section \<open>\<^verbatim>\<open>api/v1/endpoints/markets.py\<close>: the routes\<close>

text \<open>
  A route: its method, its path below \<^verbatim>\<open>/api/v1/markets/\<close> cut at the slashes (a
  parameter such as \<^verbatim>\<open>{market_id}\<close> stands for one segment that is not empty), and
  whether it declares \<^verbatim>\<open>Depends(get_current_user)\<close>.
\<close>

datatype segment = Lit string | Param

record route =
  route_method :: string
  route_path :: "segment list"
  depends_on_current_user :: bool

definition markets_routes :: "route list" where
  "markets_routes =
     [\<lparr>route_method = ''POST'', route_path = [Lit ''create''], depends_on_current_user = True\<rparr>,
      \<lparr>route_method = ''GET'', route_path = [Lit []], depends_on_current_user = False\<rparr>,
      \<lparr>route_method = ''GET'', route_path = [Param], depends_on_current_user = False\<rparr>,
      \<lparr>route_method = ''PUT'', route_path = [Param], depends_on_current_user = True\<rparr>,
      \<lparr>route_method = ''DELETE'', route_path = [Param], depends_on_current_user = True\<rparr>,
      \<lparr>route_method = ''GET'', route_path = [Param, Lit ''stats''],
       depends_on_current_user = False\<rparr>,
      \<lparr>route_method = ''POST'', route_path = [Param, Lit ''resolve''],
       depends_on_current_user = True\<rparr>,
      \<lparr>route_method = ''GET'', route_path = [Lit ''trending'', Lit []],
       depends_on_current_user = False\<rparr>,
      \<lparr>route_method = ''GET'', route_path = [Lit ''featured'', Lit []],
       depends_on_current_user = False\<rparr>]"

fun strip_prefix :: "string \<Rightarrow> string \<Rightarrow> string option" where
  "strip_prefix [] s = Some s"
| "strip_prefix (p # ps) [] = None"
| "strip_prefix (p # ps) (c # cs) = (if p = c then strip_prefix ps cs else None)"

text \<open>\<^verbatim>\<open>s.split("/")\<close>.\<close>

fun split_slash :: "string \<Rightarrow> string list" where
  "split_slash [] = [[]]"
| "split_slash (c # cs) =
     (if c = CHR ''/'' then [] # split_slash cs
      else (case split_slash cs of
              [] \<Rightarrow> [[c]]
            | s # ss \<Rightarrow> (c # s) # ss))"

fun match_path :: "segment list \<Rightarrow> string list \<Rightarrow> bool" where
  "match_path [] [] = True"
| "match_path (Lit l # ps) (s # ss) = (l = s \<and> match_path ps ss)"
| "match_path (Param # ps) (s # ss) = (s \<noteq> [] \<and> match_path ps ss)"
| "match_path _ _ = False"

definition route_matches :: "route \<Rightarrow> string \<Rightarrow> string \<Rightarrow> bool" where
  "route_matches rt m p =
     (route_method rt = m
      \<and> (case strip_prefix ''/api/v1/markets/'' p of
            None \<Rightarrow> False
          | Some rest \<Rightarrow> match_path (route_path rt) (split_slash rest)))"

text \<open>
  The markets router on a request: the first route that matches; if it declares the
  dependency, \<^verbatim>\<open>get_current_user\<close> runs before the endpoint and its exception ends the
  request. The endpoints themselves are a parameter. Without a matching route the router
  raises 404.
\<close>

definition markets_router :: "(route \<Rightarrow> user_data option \<Rightarrow> app) \<Rightarrow> app" where
  "markets_router endpoint req r =
     (case find (\<lambda>rt. route_matches rt (method req) (path req)) markets_routes of
        None \<Rightarrow>
          (Raised (HTTPException \<lparr>status_code = 404, detail = ''Not Found'',
                                  exc_headers = Map.empty\<rparr>), r)
      | Some rt \<Rightarrow>
          if depends_on_current_user rt then
            (case get_current_user req of
               Inl e \<Rightarrow> (Raised e, r)
             | Inr u \<Rightarrow> endpoint rt (Some u) req r)
          else endpoint rt None req r)"

section \<open>\<^verbatim>\<open>api/v1/endpoints/auth.py\<close>: logout\<close>

text \<open>
  \<^verbatim>\<open>logout_user\<close>: the blacklist entry for the presented token, kept for the access
  token lifetime, then the cached identity removed. Neither cache call raises.
\<close>

definition logout_user :: "settings \<Rightarrow> string \<Rightarrow> string \<Rightarrow> redis \<Rightarrow> string \<times> redis" where
  "logout_user cfg current_user_id token r =
     (let blacklist_key = ''blacklist:'' @ token in
      case cache_set cache blacklist_key (JBool True) (Some (access_token_expire_minutes cfg * 60)) r of
        (ok, r1) \<Rightarrow>
          (let cache_key = ''user:'' @ current_user_id in
           case cache_delete cache cache_key r1 of
             (ok', r2) \<Rightarrow> (''Successfully logged out'', r2)))"

section \<open>Reading outcomes, and inputs for the examples\<close>

text \<open>
  The status and a header of the response an application sent; an exception, raised or
  handed back as a value, is no response.
\<close>

fun outcome_status :: "outcome \<Rightarrow> nat option" where
  "outcome_status (Response resp) = Some (status resp)"
| "outcome_status (Raised e) = None"
| "outcome_status (Returned e) = None"

fun outcome_header :: "string \<Rightarrow> outcome \<Rightarrow> string option" where
  "outcome_header name (Response resp) = headers resp name"
| "outcome_header name (Raised e) = None"
| "outcome_header name (Returned e) = None"

text \<open>An endpoint table that answers 200 everywhere and leaves the store alone.\<close>

definition ok_endpoint :: "route \<Rightarrow> user_data option \<Rightarrow> app" where
  "ok_endpoint rt u req r =
     (Response \<lparr>status = 200, headers = Map.empty, body = Json [(''status'', ''ok'')]\<rparr>, r)"

text \<open>The commands that reached the store between an earlier state and a later one.\<close>

definition issued :: "redis \<Rightarrow> redis \<Rightarrow> command list" where
  "issued r r' = drop (length (sent r)) (sent r')"

text \<open>The key of a command carries the namespace of the global cache instance.\<close>

definition namespaced :: "command \<Rightarrow> bool" where
  "namespaced c = startswith (key_of c) (prefix cache @ '':'')"

text \<open>The defaults of \<^verbatim>\<open>core/config.py\<close>, outside production.\<close>

definition default_settings :: settings where
  "default_settings =
     \<lparr>debug = False, is_production = False, prometheus_enabled = True,
      access_token_expire_minutes = 30,
      rate_limit_requests_per_minute = 100, rate_limit_burst = 20\<rparr>"

text \<open>A request with the given method, path and \<^verbatim>\<open>Authorization\<close> header and nothing else.\<close>

definition plain_request :: "string \<Rightarrow> string \<Rightarrow> string option \<Rightarrow> request" where
  "plain_request m p a =
     \<lparr>method = m, path = p, authorization = a, x_forwarded_for = None, x_real_ip = None,
      x_request_id = None, client_host = Some ''10.0.0.1'', state_user = None,
      state_user_id = None, state_request_id = None\<rparr>"

text \<open>
  A decoder for which every token is correctly signed and unexpired and carries the given
  claims, and the claims of one user.
\<close>

definition decode_as :: "claims \<Rightarrow> string \<Rightarrow> jwt_result" where
  "decode_as c token = Decoded c"

text \<open>A decoder that meets the given exception on every token.\<close>

definition decode_raising :: "jwt_result \<Rightarrow> string \<Rightarrow> jwt_result" where
  "decode_raising e token = e"

definition alice_claims :: claims where
  "alice_claims =
     \<lparr>sub = Some ''alice'', exp = Some 1900000000, email_claim = Some ''alice@example.org'',
      role_claim = None, is_verified_claim = Some True\<rparr>"

definition test_environment :: environment where
  "test_environment =
     \<lparr>jwt_decode = decode_as alice_claims, uuid4 = ''generated-id'',
      exc_str = (\<lambda>e. ''error'')\<rparr>"

text \<open>A route handler that answers 200 and leaves the store alone.\<close>

definition ok_router :: app where
  "ok_router req r =
     (Response \<lparr>status = 200, headers = Map.empty, body = Json [(''status'', ''healthy'')]\<rparr>, r)"

section \<open>The rate limiter's decision\<close>

lemma incr_then_expire:
  assumes "up r" and "fst (apply_command (INCRBY key 1) r) = Inr (Int_reply n)"
  shows "\<exists>b r'. pipeline_execute [INCRBY key 1, EXPIRE key window] r
           = (Inr [Int_reply n, Bool_reply b], r')"
  using assms
  by (auto simp: pipeline_execute_def split: prod.splits if_splits)

lemma is_allowed_result:
  assumes "up r" and "fst (apply_command (INCRBY key 1) r) = Inr (Int_reply n)"
  shows "fst (is_allowed r key limit window) = (n \<le> limit, max 0 (limit - n))"
proof -
  obtain b r' where
    "pipeline_execute [INCRBY key 1, EXPIRE key window] r = (Inr [Int_reply n, Bool_reply b], r')"
    using incr_then_expire [OF assms] by blast
  then show ?thesis
    by (simp add: is_allowed_def is_allowed_try_def)
qed

lemma is_allowed_down: "\<not> up r \<Longrightarrow> is_allowed r key limit window = ((True, limit), r)"
  by (simp add: is_allowed_def is_allowed_try_def pipeline_execute_def)

lemma successive_calls_down:
  "\<not> up r \<Longrightarrow> successive_calls n r key limit window = replicate n (True, limit)"
  by (induction n) (simp_all add: is_allowed_down)

lemma is_allowed_on_error:
  "fst (pipeline_execute [INCRBY key 1, EXPIRE key window] r) = Inl e \<Longrightarrow>
   fst (is_allowed r key limit window) = (True, limit)"
  by (auto simp: is_allowed_def is_allowed_try_def split: prod.splits sum.splits)

lemma check_rate_limit_down:
  "\<not> up r \<Longrightarrow>
   fst (check_rate_limit self cid req r) = (True, fst (get_limits_for_path self (path req) (method req)))"
  by (simp add: check_rate_limit_def is_allowed_down split: prod.splits)

text \<open>
  C4. When the store is reachable and the increment answers \<open>n\<close>, \<^verbatim>\<open>is_allowed\<close>
  answers allowed exactly when \<open>n \<le> limit\<close>, with remaining \<open>max 0 (limit - n)\<close>. With
  limit 5, six calls in a row on a key of an empty store answer remaining 4, 3, 2, 1, 0,
  all allowed, and then a rejection.
\<close>

theorem is_allowed_count:
  "(up r \<and> fst (apply_command (INCRBY key 1) r) = Inr (Int_reply n) \<longrightarrow>
      fst (is_allowed r key limit window) = (n \<le> limit, max 0 (limit - n)))
   \<and> successive_calls 6 fresh_store key 5 60
       = [(True, 4), (True, 3), (True, 2), (True, 1), (True, 0), (False, 0)]"
proof
  show "up r \<and> fst (apply_command (INCRBY key 1) r) = Inr (Int_reply n) \<longrightarrow>
      fst (is_allowed r key limit window) = (n \<le> limit, max 0 (limit - n))"
    by (simp add: is_allowed_result)
next
  show "successive_calls 6 fresh_store key 5 60
       = [(True, 4), (True, 3), (True, 2), (True, 1), (True, 0), (False, 0)]"
    by (simp add: eval_nat_numeral is_allowed_def is_allowed_try_def pipeline_execute_def
        fresh_store_def)
qed

theorem is_allowed_count_witness:
  "up fresh_store
   \<and> fst (apply_command (INCRBY ''rate_limit:ip:10.0.0.1:/api/v1/users/me'' 1) fresh_store)
       = Inr (Int_reply 1)
   \<and> fst (is_allowed fresh_store ''rate_limit:ip:10.0.0.1:/api/v1/users/me'' 5 60) = (True, 4)"
proof -
  have h: "up fresh_store
     \<and> fst (apply_command (INCRBY ''rate_limit:ip:10.0.0.1:/api/v1/users/me'' 1) fresh_store)
         = Inr (Int_reply 1)"
    by (simp add: fresh_store_def)
  with is_allowed_count [of fresh_store "''rate_limit:ip:10.0.0.1:/api/v1/users/me''" 1 5 60]
  show ?thesis by simp
qed

text \<open>
  C5. If executing the queued commands raises, \<^verbatim>\<open>is_allowed\<close> answers
  \<^verbatim>\<open>(True, limit)\<close>. With the store unreachable, any number of calls in a row all
  answer \<^verbatim>\<open>(True, limit)\<close>, and so does \<^verbatim>\<open>_check_rate_limit\<close> with the limit of the
  route. The functions have no exceptional result: they always return the pair.
\<close>

theorem is_allowed_fail_open:
  "(fst (pipeline_execute [INCRBY key 1, EXPIRE key window] r) = Inl e \<longrightarrow>
      fst (is_allowed r key limit window) = (True, limit))
   \<and> (\<not> up r \<longrightarrow> successive_calls n r key limit window = replicate n (True, limit))
   \<and> (\<not> up r \<longrightarrow>
        fst (check_rate_limit self cid req r)
          = (True, fst (get_limits_for_path self (path req) (method req))))"
  using is_allowed_on_error [of key window r e limit]
    successive_calls_down [of r n key limit window]
    check_rate_limit_down [of r self cid req]
  by blast

theorem is_allowed_fail_open_witness:
  "\<not> up (fresh_store\<lparr>up := False\<rparr>)
   \<and> fst (pipeline_execute [INCRBY ''k'' 1, EXPIRE ''k'' 60] (fresh_store\<lparr>up := False\<rparr>))
       = Inl ConnectionError
   \<and> fst (is_allowed (fresh_store\<lparr>up := False\<rparr>) ''k'' 5 60) = (True, 5)
   \<and> successive_calls 7 (fresh_store\<lparr>up := False\<rparr>) ''k'' 5 60 = replicate 7 (True, 5)"
proof -
  have h: "\<not> up (fresh_store\<lparr>up := False\<rparr>)
     \<and> fst (pipeline_execute [INCRBY ''k'' 1, EXPIRE ''k'' 60] (fresh_store\<lparr>up := False\<rparr>))
         = Inl ConnectionError"
    by (simp add: fresh_store_def pipeline_execute_def)
  with is_allowed_fail_open [of "''k''" 60 "fresh_store\<lparr>up := False\<rparr>" ConnectionError 5 7]
  show ?thesis by blast
qed

section \<open>The counter's time to live\<close>

lemma incr_keeps_key: "kv (snd (apply_command (INCRBY k 1) r)) k \<noteq> None"
  by (simp split: option.splits json.splits)

lemma expire_sets_ttl:
  "kv r k \<noteq> None \<Longrightarrow> 0 < s \<Longrightarrow> ttl (snd (apply_command (EXPIRE k s) r)) k = Some s"
  by auto

lemma run_queued_store:
  "snd (run_queued (c # cs) r)
     = snd (run_queued cs
             ((snd (apply_command c r))\<lparr>sent := sent (snd (apply_command c r)) @ [c]\<rparr>))"
  by (simp split: prod.splits del: apply_command.simps)

lemma run_queued_empty: "snd (run_queued [] r) = r"
  by simp

lemma is_allowed_store:
  "snd (is_allowed r key limit window)
     = snd (pipeline_execute [INCRBY key 1, EXPIRE key window] r)"
  by (simp add: is_allowed_def is_allowed_try_def
       split: prod.splits sum.splits list.splits reply.splits)

lemma pipeline_execute_store:
  "up r \<Longrightarrow> snd (pipeline_execute cmds r) = snd (run_queued cmds r)"
  by (simp add: pipeline_execute_def split: prod.splits)

text \<open>
  C6, as the code has it. \<^verbatim>\<open>is_allowed\<close> queues \<^verbatim>\<open>expire(key, window)\<close> on every
  call, so after every call that reaches the store with a positive window the counter's
  time to live is the whole window again, whether the call created the counter or not.
\<close>

theorem is_allowed_refreshes_ttl:
  assumes "up r" and "0 < window"
  shows "ttl (snd (is_allowed r key limit window)) key = Some window"
proof -
  let ?r1 = "snd (apply_command (INCRBY key 1) r)"
  let ?r1' = "?r1\<lparr>sent := sent ?r1 @ [INCRBY key 1]\<rparr>"
  have "kv ?r1' key \<noteq> None"
    using incr_keeps_key [of key r] by simp
  then have "ttl (snd (apply_command (EXPIRE key window) ?r1')) key = Some window"
    using assms(2) by (rule expire_sets_ttl)
  then show ?thesis
    using assms(1)
    by (simp add: is_allowed_store pipeline_execute_store run_queued_store run_queued_empty
        del: apply_command.simps run_queued.simps)
qed

theorem is_allowed_refreshes_ttl_witness:
  "up (elapse 30 (snd (is_allowed fresh_store ''k'' 5 60))) \<and> (0::int) < 60
   \<and> ttl (snd (is_allowed (elapse 30 (snd (is_allowed fresh_store ''k'' 5 60))) ''k'' 5 60)) ''k''
       = Some 60"
proof -
  have u: "up (elapse 30 (snd (is_allowed fresh_store ''k'' 5 60)))"
    by (simp add: is_allowed_def is_allowed_try_def pipeline_execute_def fresh_store_def
        elapse_def)
  have w: "(0::int) < 60" by simp
  from is_allowed_refreshes_ttl [OF u w, of "''k''" 5] u w show ?thesis by blast
qed

text \<open>
  As the specification words it, the property fails: thirty seconds after the first call
  the counter exists with thirty seconds left, and the second call puts it back to sixty.
\<close>

theorem ttl_unchanged_counterexample:
  "kv (elapse 30 (snd (is_allowed fresh_store ''k'' 5 60))) ''k'' = Some (JInt 1)
   \<and> ttl (elapse 30 (snd (is_allowed fresh_store ''k'' 5 60))) ''k'' = Some 30
   \<and> ttl (snd (is_allowed (elapse 30 (snd (is_allowed fresh_store ''k'' 5 60))) ''k'' 5 60)) ''k''
       \<noteq> ttl (elapse 30 (snd (is_allowed fresh_store ''k'' 5 60))) ''k''"
  by (simp add: is_allowed_def is_allowed_try_def pipeline_execute_def fresh_store_def
      elapse_def)

section \<open>The blacklist\<close>

lemma cache_exists_up:
  "up r \<Longrightarrow> cache_exists c k r
     = (kv r (make_key c k) \<noteq> None, r\<lparr>sent := sent r @ [EXISTS (make_key c k)]\<rparr>)"
  by (simp add: cache_exists_def client_call_def)

lemma validate_blacklisted:
  assumes "up r" and "kv r (make_key cache (''blacklist:'' @ t)) \<noteq> None"
  shows "validate_token dec t r
     = (None, r\<lparr>sent := sent r @ [EXISTS (make_key cache (''blacklist:'' @ t))]\<rparr>)"
  using assms by (simp add: validate_token_def cache_exists_up)

lemma validate_decode_fails:
  assumes "dec t = ExpiredSignatureError \<or> dec t = InvalidTokenError \<or> dec t = OtherError"
  shows "fst (validate_token dec t r) = None"
  using assms by (auto simp: validate_token_def split: prod.splits bool.splits)

lemma dispatch_rejects:
  assumes "\<not> Auth_is_exempt_path (path req)" and "extract_token req = Some t" and "t \<noteq> []"
    and "fst (validate_token dec t r) = None"
  shows "fst (Auth_dispatch dec req r call_next) = Returned unauthorized_response"
  using assms by (cases t) (auto simp: Auth_dispatch_def is_true_def split: prod.splits)

lemma dispatch_missing:
  assumes "\<not> Auth_is_exempt_path (path req)"
    and "extract_token req = None \<or> extract_token req = Some []"
    and "requires_auth (path req)"
  shows "Auth_dispatch dec req r call_next = (Returned unauthorized_response, r)"
  using assms by (auto simp: Auth_dispatch_def)

lemma elapse_keeps: "ttl r k = Some t \<Longrightarrow> s < t \<Longrightarrow> kv (elapse s r) k = kv r k"
  by (simp add: elapse_def)

lemma elapse_up: "up (elapse s r) = up r"
  by (simp add: elapse_def)

lemma client_call_up: "up (snd (client_call cmd r)) = up r"
  by (cases cmd) (auto simp: client_call_def remove_key_def split: option.splits json.splits)

lemma cache_exists_keeps_up: "cache_exists c k r = (b, r') \<Longrightarrow> up r' = up r"
  using client_call_up [of "EXISTS (make_key c k)" r]
  by (auto simp: cache_exists_def split: prod.splits sum.splits reply.splits)

lemma cache_get_keeps_up: "cache_get c k r = (v, r') \<Longrightarrow> up r' = up r"
  using client_call_up [of "GET (make_key c k)" r]
  by (auto simp: cache_get_def split: prod.splits sum.splits reply.splits option.splits)

lemma cache_set_keeps_up: "cache_set c k v e r = (b, r') \<Longrightarrow> up r' = up r"
  using client_call_up [of "SET (make_key c k) v e" r]
  by (auto simp: cache_set_def split: prod.splits sum.splits)

lemma validate_up: "up (snd (validate_token dec t r)) = up r"
  unfolding validate_token_def Let_def
  by (auto split: prod.splits bool.splits jwt_result.splits option.splits if_splits
      dest: cache_exists_keeps_up cache_get_keeps_up cache_set_keeps_up)

lemma logout_blacklists:
  assumes "up r" and "0 < access_token_expire_minutes cfg"
  shows "up (snd (logout_user cfg uid t r))
     \<and> kv (snd (logout_user cfg uid t r)) (make_key cache (''blacklist:'' @ t)) = Some (JBool True)
     \<and> ttl (snd (logout_user cfg uid t r)) (make_key cache (''blacklist:'' @ t))
         = Some (access_token_expire_minutes cfg * 60)"
  using assms
  by (simp add: logout_user_def cache_set_def cache_delete_def client_call_def make_key_def
      cache_def remove_key_def Let_def)

lemma logout_then_reuse:
  assumes "up r" and "0 < access_token_expire_minutes cfg"
  shows "fst (validate_token dec t
               (snd (logout_user cfg uid t (snd (validate_token dec t r))))) = None"
proof -
  have "up (snd (validate_token dec t r))"
    using assms(1) by (simp add: validate_up)
  from logout_blacklists [OF this assms(2), of uid t]
  show ?thesis by (simp add: validate_blacklisted)
qed

lemmas example_defs =
  logout_user_def cache_set_def cache_delete_def cache_exists_def cache_get_def client_call_def
  make_key_def cache_def remove_key_def Let_def default_settings_def fresh_store_def
  validate_token_def decode_as_def alice_claims_def Auth_dispatch_def is_true_def ok_router_def
  plain_request_def extract_token_def lower_def lower_char_def Auth_is_exempt_path_def
  EXEMPT_PATHS_def exempt_patterns_def requires_auth_def elapse_def decode_raising_def

text \<open>
  C1, as the code has it. While the store answers the existence check and holds an entry
  under the blacklist key of a token, \<^verbatim>\<open>_validate_token\<close> returns no identity for that
  token whatever \<^verbatim>\<open>jwt.decode\<close> would say, the entry stays, and \<^verbatim>\<open>dispatch\<close> on a
  path that is not exempt hands back the 401 exception; this lasts for as long as the
  entry's time to live has not run out. A token validated and then logged out on a
  reachable store (with a positive token lifetime) is refused at its next validation.
\<close>

theorem blacklist_supremacy_reachable:
  "(up r \<and> kv r (make_key cache (''blacklist:'' @ token)) \<noteq> None \<longrightarrow>
      fst (validate_token dec token r) = None
      \<and> kv (snd (validate_token dec token r)) = kv r
      \<and> (\<not> Auth_is_exempt_path (path req) \<and> extract_token req = Some token \<and> token \<noteq> [] \<longrightarrow>
           fst (Auth_dispatch dec req r call_next) = Returned unauthorized_response)
      \<and> (\<forall>s t. ttl r (make_key cache (''blacklist:'' @ token)) = Some t \<and> s < t \<longrightarrow>
           fst (validate_token dec token (elapse s r)) = None))
   \<and> (up r \<and> 0 < access_token_expire_minutes cfg \<longrightarrow>
        fst (validate_token dec token
              (snd (logout_user cfg uid token (snd (validate_token dec token r))))) = None)"
proof (intro conjI impI allI)
  assume h: "up r \<and> kv r (make_key cache (''blacklist:'' @ token)) \<noteq> None"
  then show v: "fst (validate_token dec token r) = None"
    by (simp add: validate_blacklisted)
  from h show "kv (snd (validate_token dec token r)) = kv r"
    by (simp add: validate_blacklisted)
  {
    assume "\<not> Auth_is_exempt_path (path req) \<and> extract_token req = Some token \<and> token \<noteq> []"
    with v show "fst (Auth_dispatch dec req r call_next) = Returned unauthorized_response"
      by (simp add: dispatch_rejects)
  }
  {
    fix s t
    assume "ttl r (make_key cache (''blacklist:'' @ token)) = Some t \<and> s < t"
    with h have "up (elapse s r)
        \<and> kv (elapse s r) (make_key cache (''blacklist:'' @ token)) \<noteq> None"
      by (simp add: elapse_up elapse_keeps)
    then show "fst (validate_token dec token (elapse s r)) = None"
      by (simp add: validate_blacklisted)
  }
next
  assume "up r \<and> 0 < access_token_expire_minutes cfg"
  then show "fst (validate_token dec token
              (snd (logout_user cfg uid token (snd (validate_token dec token r))))) = None"
    by (simp add: logout_then_reuse)
qed

theorem blacklist_supremacy_reachable_witness:
  "up (snd (logout_user default_settings ''alice'' ''tok'' fresh_store))
   \<and> kv (snd (logout_user default_settings ''alice'' ''tok'' fresh_store))
        (make_key cache (''blacklist:'' @ ''tok'')) \<noteq> None
   \<and> ttl (snd (logout_user default_settings ''alice'' ''tok'' fresh_store))
        (make_key cache (''blacklist:'' @ ''tok'')) = Some 1800
   \<and> fst (validate_token (decode_as alice_claims) ''tok''
           (snd (logout_user default_settings ''alice'' ''tok'' fresh_store))) = None
   \<and> fst (Auth_dispatch (decode_as alice_claims)
           (plain_request ''GET'' ''/api/v1/users/me'' (Some ''Bearer tok''))
           (snd (logout_user default_settings ''alice'' ''tok'' fresh_store)) ok_router)
       = Returned unauthorized_response
   \<and> fst (validate_token (decode_as alice_claims) ''tok''
           (elapse 1799 (snd (logout_user default_settings ''alice'' ''tok'' fresh_store)))) = None
   \<and> fst (validate_token (decode_as alice_claims) ''tok'' fresh_store) \<noteq> None
   \<and> fst (validate_token (decode_as alice_claims) ''tok''
           (snd (logout_user default_settings ''alice'' ''tok''
                  (snd (validate_token (decode_as alice_claims) ''tok'' fresh_store))))) = None"
proof -
  let ?R = "snd (logout_user default_settings ''alice'' ''tok'' fresh_store)"
  let ?req = "plain_request ''GET'' ''/api/v1/users/me'' (Some ''Bearer tok'')"
  have h1: "up ?R \<and> kv ?R (make_key cache (''blacklist:'' @ ''tok'')) \<noteq> None"
    by (simp add: example_defs)
  have h2: "\<not> Auth_is_exempt_path (path ?req) \<and> extract_token ?req = Some ''tok'' \<and> ''tok'' \<noteq> []"
    by (simp add: example_defs)
  have h3: "ttl ?R (make_key cache (''blacklist:'' @ ''tok'')) = Some 1800 \<and> (1799::int) < 1800"
    by (simp add: example_defs)
  have h4: "up fresh_store \<and> 0 < access_token_expire_minutes default_settings"
    by (simp add: example_defs)
  have h5: "fst (validate_token (decode_as alice_claims) ''tok'' fresh_store) \<noteq> None"
    by (simp add: example_defs)
  from blacklist_supremacy_reachable
         [of ?R "''tok''" "decode_as alice_claims" ?req ok_router default_settings "''alice''"]
       blacklist_supremacy_reachable
         [of fresh_store "''tok''" "decode_as alice_claims" ?req ok_router default_settings
             "''alice''"]
       h1 h2 h3 h4 h5
  show ?thesis by blast
qed

text \<open>
  As the specification words it, the property fails when the store cannot be reached: the
  entry is there,
  \<^verbatim>\<open>cache.exists\<close> swallows the connection error and answers \<^verbatim>\<open>False\<close>, and the
  token is accepted on its signature and claims.
\<close>

theorem blacklist_unreachable_counterexample:
  "kv ((snd (logout_user default_settings ''alice'' ''tok'' fresh_store))\<lparr>up := False\<rparr>)
      ''predictpesa:blacklist:tok'' = Some (JBool True)
   \<and> ttl ((snd (logout_user default_settings ''alice'' ''tok'' fresh_store))\<lparr>up := False\<rparr>)
      ''predictpesa:blacklist:tok'' = Some 1800
   \<and> fst (validate_token (decode_as alice_claims) ''tok''
        ((snd (logout_user default_settings ''alice'' ''tok'' fresh_store))\<lparr>up := False\<rparr>))
       \<noteq> None
   \<and> outcome_status (fst (Auth_dispatch (decode_as alice_claims)
         (plain_request ''GET'' ''/api/v1/users/me'' (Some ''Bearer tok''))
         ((snd (logout_user default_settings ''alice'' ''tok'' fresh_store))\<lparr>up := False\<rparr>)
         ok_router)) = Some 200"
  by (simp add: example_defs)

section \<open>The middleware stack\<close>

lemma dispatch_of_auth: "dispatch_of cfg env AuthMiddleware = Auth_dispatch (jwt_decode env)"
  by (intro ext) (simp add: dispatch_of_def)

lemma dispatch_of_rate_limit:
  "dispatch_of cfg env RateLimitMiddleware = RateLimit_dispatch (RateLimit_init cfg None None)"
  by (intro ext) (simp add: dispatch_of_def)

lemma dispatch_of_request_id:
  "dispatch_of cfg env RequestIDMiddleware = RequestID_dispatch (uuid4 env)"
  by (intro ext) (simp add: dispatch_of_def)

lemma dispatch_of_metrics:
  "dispatch_of cfg env MetricsMiddleware = (\<lambda>req r call_next. call_next req r)"
  by (intro ext) (simp add: dispatch_of_def)

lemma base_http_never_returns: "fst (base_http_middleware d inner req r) \<noteq> Returned e"
  by (simp add: base_http_middleware_def split: prod.splits outcome.splits)

lemma base_http_forwarding:
  assumes "d req r inner = inner req r" and "\<And>e. fst (inner req r) \<noteq> Returned e"
  shows "base_http_middleware d inner req r = inner req r"
proof (cases "inner req r")
  case (Pair out r')
  with assms(2) have "\<And>e. out \<noteq> Returned e" by simp
  with Pair assms(1) show ?thesis
    by (cases out) (auto simp: base_http_middleware_def)
qed

lemma metrics_forwards:
  "base_http_middleware (\<lambda>req r call_next. call_next req r) (base_http_middleware d inner)
     = base_http_middleware d inner"
  by (intro ext, rule base_http_forwarding) (simp_all add: base_http_never_returns)

lemma pipeline_unfold:
  "pipeline cfg env router
     = base_http_middleware (Auth_dispatch (jwt_decode env))
         (base_http_middleware (RateLimit_dispatch (RateLimit_init cfg None None))
            (base_http_middleware (RequestID_dispatch (uuid4 env)) router))"
  by (simp add: pipeline_def create_application_def add_middleware_def Let_def dispatch_of_auth
      dispatch_of_rate_limit dispatch_of_request_id dispatch_of_metrics metrics_forwards)

lemma server_error_status:
  "fst (inner req r) = Raised e \<Longrightarrow>
   outcome_status (fst (server_error_middleware cfg env inner req r)) = Some 500
   \<and> outcome_header name (fst (server_error_middleware cfg env inner req r)) = None"
  by (cases "inner req r")
     (simp add: server_error_middleware_def global_exception_handler_def)

lemma auth_returned_is_type_error:
  "fst (Auth_dispatch dec req r inner) = Returned e \<Longrightarrow>
   fst (base_http_middleware (Auth_dispatch dec) inner req r) = Raised TypeError"
  by (cases "Auth_dispatch dec req r inner") (simp add: base_http_middleware_def)

lemma application_auth_refusal:
  assumes "\<And>call_next. fst (Auth_dispatch (jwt_decode env) req r call_next) = Returned e"
  shows "outcome_status (fst (application cfg env router req r)) = Some 500
    \<and> outcome_header name (fst (application cfg env router req r)) = None"
  unfolding application_def pipeline_unfold
  by (rule server_error_status) (rule auth_returned_is_type_error, rule assms)

section \<open>Rejections of the authentication middleware\<close>

text \<open>
  C7. The value that \<^verbatim>\<open>_unauthorized_response()\<close> builds is the one the specification
  asks for: status 401, one fixed message that names no cause, and the header
  \<^verbatim>\<open>WWW-Authenticate: Bearer\<close>; and \<^verbatim>\<open>dispatch\<close> ends in it for all four causes (a
  protected path without a bearer token, \<^verbatim>\<open>InvalidTokenError\<close>,
  \<^verbatim>\<open>ExpiredSignatureError\<close>, a token blacklisted on a reachable store). But
  \<^verbatim>\<open>dispatch\<close> returns that exception object as its value, so the application does not
  answer 401: for each of the four causes its response has status 500 and no
  \<^verbatim>\<open>WWW-Authenticate\<close> header.
\<close>

theorem unauthorized_surfaces_as_500:
  "(\<not> Auth_is_exempt_path (path req)
      \<and> (requires_auth (path req) \<and> (extract_token req = None \<or> extract_token req = Some [])
          \<or> extract_token req = Some token \<and> token \<noteq> []
             \<and> (jwt_decode env token = InvalidTokenError
                 \<or> jwt_decode env token = ExpiredSignatureError
                 \<or> (up r \<and> kv r (make_key cache (''blacklist:'' @ token)) \<noteq> None))) \<longrightarrow>
        fst (Auth_dispatch (jwt_decode env) req r call_next) = Returned unauthorized_response
        \<and> outcome_status (fst (application cfg env router req r)) = Some 500
        \<and> outcome_header ''WWW-Authenticate'' (fst (application cfg env router req r)) = None)
   \<and> status_code unauthorized_response = 401
   \<and> detail unauthorized_response = ''Invalid or missing authentication token''
   \<and> exc_headers unauthorized_response ''WWW-Authenticate'' = Some ''Bearer''"
proof (intro conjI impI)
  assume h: "\<not> Auth_is_exempt_path (path req)
      \<and> (requires_auth (path req) \<and> (extract_token req = None \<or> extract_token req = Some [])
          \<or> extract_token req = Some token \<and> token \<noteq> []
             \<and> (jwt_decode env token = InvalidTokenError
                 \<or> jwt_decode env token = ExpiredSignatureError
                 \<or> (up r \<and> kv r (make_key cache (''blacklist:'' @ token)) \<noteq> None)))"
  have ret: "fst (Auth_dispatch (jwt_decode env) req r cn) = Returned unauthorized_response" for cn
  proof (cases "requires_auth (path req)
      \<and> (extract_token req = None \<or> extract_token req = Some [])")
    case True
    with h show ?thesis by (simp add: dispatch_missing)
  next
    case False
    with h have t: "extract_token req = Some token" "token \<noteq> []"
      and c: "jwt_decode env token = InvalidTokenError
                 \<or> jwt_decode env token = ExpiredSignatureError
                 \<or> (up r \<and> kv r (make_key cache (''blacklist:'' @ token)) \<noteq> None)"
      by blast+
    from c have "fst (validate_token (jwt_decode env) token r) = None"
      using validate_decode_fails [of "jwt_decode env" token r]
        validate_blacklisted [of r token "jwt_decode env"]
      by auto
    with h t show ?thesis by (simp add: dispatch_rejects)
  qed
  show "fst (Auth_dispatch (jwt_decode env) req r call_next) = Returned unauthorized_response"
    by (rule ret)
  show "outcome_status (fst (application cfg env router req r)) = Some 500"
    using application_auth_refusal [of env req r unauthorized_response cfg router] ret by blast
  show "outcome_header ''WWW-Authenticate'' (fst (application cfg env router req r)) = None"
    using application_auth_refusal [of env req r unauthorized_response cfg router] ret by blast
qed (simp_all add: unauthorized_response_def)

theorem unauthorized_surfaces_as_500_witness:
  "outcome_status
     (fst (application default_settings test_environment ok_router
             (plain_request ''GET'' ''/api/v1/users/me'' None) fresh_store)) = Some 500
   \<and> outcome_header ''WWW-Authenticate''
        (fst (application default_settings test_environment ok_router
                (plain_request ''GET'' ''/api/v1/users/me'' None) fresh_store)) = None
   \<and> fst (Auth_dispatch (jwt_decode test_environment)
            (plain_request ''GET'' ''/api/v1/users/me'' (Some ''Bearer tok''))
            (snd (logout_user default_settings ''alice'' ''tok'' fresh_store)) ok_router)
       = Returned unauthorized_response
   \<and> outcome_status
        (fst (application default_settings test_environment ok_router
                (plain_request ''GET'' ''/api/v1/users/me'' (Some ''Bearer tok''))
                (snd (logout_user default_settings ''alice'' ''tok'' fresh_store)))) = Some 500
   \<and> outcome_header ''WWW-Authenticate''
        (fst (application default_settings test_environment ok_router
                (plain_request ''GET'' ''/api/v1/users/me'' (Some ''Bearer tok''))
                (snd (logout_user default_settings ''alice'' ''tok'' fresh_store)))) = None"
proof -
  let ?R = "snd (logout_user default_settings ''alice'' ''tok'' fresh_store)"
  let ?none = "plain_request ''GET'' ''/api/v1/users/me'' None"
  let ?req = "plain_request ''GET'' ''/api/v1/users/me'' (Some ''Bearer tok'')"
  let ?bl = "make_key cache (''blacklist:'' @ ''tok'')"
  have m: "\<not> Auth_is_exempt_path (path ?none)" "requires_auth (path ?none)"
    "extract_token ?none = None"
    by (simp_all add: example_defs)
  have t: "\<not> Auth_is_exempt_path (path ?req)" "extract_token ?req = Some ''tok''" "''tok'' \<noteq> []"
    by (simp_all add: example_defs)
  have b: "up ?R \<and> kv ?R ?bl \<noteq> None"
    by (simp add: example_defs)
  have hm: "\<not> Auth_is_exempt_path (path ?none)
      \<and> (requires_auth (path ?none)
            \<and> (extract_token ?none = None \<or> extract_token ?none = Some [])
          \<or> extract_token ?none = Some ''tok'' \<and> ''tok'' \<noteq> []
             \<and> (jwt_decode test_environment ''tok'' = InvalidTokenError
                 \<or> jwt_decode test_environment ''tok'' = ExpiredSignatureError
                 \<or> (up fresh_store \<and> kv fresh_store ?bl \<noteq> None)))"
    using m by blast
  have hb: "\<not> Auth_is_exempt_path (path ?req)
      \<and> (requires_auth (path ?req)
            \<and> (extract_token ?req = None \<or> extract_token ?req = Some [])
          \<or> extract_token ?req = Some ''tok'' \<and> ''tok'' \<noteq> []
             \<and> (jwt_decode test_environment ''tok'' = InvalidTokenError
                 \<or> jwt_decode test_environment ''tok'' = ExpiredSignatureError
                 \<or> (up ?R \<and> kv ?R ?bl \<noteq> None)))"
    using t b by blast
  note rm = mp [OF conjunct1 [OF unauthorized_surfaces_as_500
        [where req = ?none and token = "''tok''" and env = test_environment and r = fresh_store
           and call_next = ok_router and cfg = default_settings and router = ok_router]] hm]
  note rb = mp [OF conjunct1 [OF unauthorized_surfaces_as_500
        [where req = ?req and token = "''tok''" and env = test_environment and r = ?R
           and call_next = ok_router and cfg = default_settings and router = ok_router]] hb]
  show ?thesis
    by (intro conjI)
       (rule conjunct1 [OF conjunct2 [OF rm]], rule conjunct2 [OF conjunct2 [OF rm]],
        rule conjunct1 [OF rb], rule conjunct1 [OF conjunct2 [OF rb]],
        rule conjunct2 [OF conjunct2 [OF rb]])
qed

lemmas app_defs = application_def pipeline_unfold base_http_middleware_def
  server_error_middleware_def global_exception_handler_def exception_middleware_def
  RateLimit_dispatch_def RequestID_dispatch_def get_or_generate_request_id_def
  check_rate_limit_def get_limits_for_path_def get_client_id_def get_client_ip_def
  RateLimit_init_def RateLimit_is_exempt_path_def is_allowed_def is_allowed_try_def
  pipeline_execute_def set_header_def too_many_requests_def test_environment_def
  unauthorized_response_def issued_def

section \<open>The order of the stages\<close>

text \<open>
  C2. \<^verbatim>\<open>create_application\<close> adds the request-ID, the rate-limit and the authentication
  middleware in this order, and each addition goes to the front of the list: the stack
  is authentication around rate limiting around request-ID assignment around the router,
  so a request meets authentication first and request-ID assignment last. Rate limiting
  does not run before authentication: a request without a token for a protected path is
  refused with no counter touched, and a request with a good token is counted after the
  authenticator's own cache commands, under the identity that authentication attached.
\<close>

theorem authentication_runs_before_rate_limiting:
  "stage_order cfg = [AuthMiddleware, RateLimitMiddleware, RequestIDMiddleware]
   \<and> pipeline cfg env router
       = base_http_middleware (Auth_dispatch (jwt_decode env))
           (base_http_middleware (RateLimit_dispatch (RateLimit_init cfg None None))
              (base_http_middleware (RequestID_dispatch (uuid4 env)) router))
   \<and> application default_settings test_environment ok_router
        (plain_request ''GET'' ''/api/v1/users/me'' None) fresh_store
       = (Response \<lparr>status = 500, headers = Map.empty,
                    body = Json [(''error'', ''Internal server error''),
                                 (''message'', ''An unexpected error occurred'')]\<rparr>,
          fresh_store)
   \<and> issued fresh_store
        (snd (application default_settings test_environment ok_router
                (plain_request ''GET'' ''/api/v1/users/me'' None) fresh_store)) = []
   \<and> outcome_status
        (fst (application default_settings test_environment ok_router
                (plain_request ''GET'' ''/api/v1/users/me'' (Some ''Bearer tok'')) fresh_store))
       = Some 200
   \<and> map key_of
        (issued fresh_store
           (snd (application default_settings test_environment ok_router
                   (plain_request ''GET'' ''/api/v1/users/me'' (Some ''Bearer tok'')) fresh_store)))
       = [''predictpesa:blacklist:tok'', ''predictpesa:user:alice'', ''predictpesa:user:alice'',
          ''rate_limit:user:alice:/api/v1/users/me'', ''rate_limit:user:alice:/api/v1/users/me'']"
proof (intro conjI)
  show "stage_order cfg = [AuthMiddleware, RateLimitMiddleware, RequestIDMiddleware]"
    by (simp add: stage_order_def create_application_def add_middleware_def Let_def
        is_pipeline_stage_def)
  show "pipeline cfg env router
       = base_http_middleware (Auth_dispatch (jwt_decode env))
           (base_http_middleware (RateLimit_dispatch (RateLimit_init cfg None None))
              (base_http_middleware (RequestID_dispatch (uuid4 env)) router))"
    by (rule pipeline_unfold)
qed (simp_all add: example_defs app_defs)

section \<open>The market routes\<close>

lemma strip_prefix_startswith: "strip_prefix p s = Some rest \<Longrightarrow> startswith s p"
  by (induction p s rule: strip_prefix.induct) (auto split: if_splits)

lemma route_matches_exempt: "route_matches rt m p \<Longrightarrow> Auth_is_exempt_path p"
  by (auto simp: route_matches_def Auth_is_exempt_path_def exempt_patterns_def
      split: option.splits dest: strip_prefix_startswith)

lemma route_matches_not_rate_exempt: "route_matches rt m p \<Longrightarrow> \<not> RateLimit_is_exempt_path p"
  by (auto simp: route_matches_def RateLimit_is_exempt_path_def split: option.splits)

lemma mutating_routes_depend:
  "rt \<in> set markets_routes \<Longrightarrow> route_method rt \<in> {''POST'', ''PUT'', ''DELETE''} \<Longrightarrow>
   depends_on_current_user rt"
  by (auto simp: markets_routes_def)

lemma found_route:
  assumes "find (\<lambda>rt. route_matches rt m p) markets_routes = Some rt"
  shows "rt \<in> set markets_routes \<and> route_matches rt m p \<and> route_method rt = m"
proof -
  from assms have "rt \<in> set markets_routes \<and> route_matches rt m p"
    by (auto simp: find_Some_iff)
  then show ?thesis by (simp add: route_matches_def)
qed

lemma no_identity_401:
  "state_user req = None \<Longrightarrow>
   get_current_user req
     = Inl (HTTPException \<lparr>status_code = 401, detail = ''Authentication required'',
                            exc_headers = Map.empty\<rparr>)"
  by (simp add: get_current_user_def is_true_def)

lemma protected_route_401:
  assumes "find (\<lambda>rt. route_matches rt (method req) (path req)) markets_routes = Some rt"
    and "depends_on_current_user rt" and "state_user req = None"
  shows "exception_middleware (markets_router endpoint) req r
     = (Response \<lparr>status = 401, headers = Map.empty,
                  body = Json [(''detail'', ''Authentication required'')]\<rparr>, r)"
  using assms by (simp add: exception_middleware_def markets_router_def no_identity_401)

text \<open>
  C3. A request for the market listing path is forwarded by the authentication
  middleware whatever its headers, so a \<^verbatim>\<open>GET\<close> without \<^verbatim>\<open>Authorization\<close> is never
  answered 401 by it. A \<^verbatim>\<open>POST\<close>, \<^verbatim>\<open>PUT\<close> or \<^verbatim>\<open>DELETE\<close> that matches a route of
  \<^verbatim>\<open>markets.py\<close> meets a route that depends on \<^verbatim>\<open>get_current_user\<close>; the middleware
  forwards it without attaching an identity, so the dependency raises and the answer is
  401, from the authentication middleware and the route together and, when the rate
  limiter admits the request, from the whole application.
\<close>

theorem market_mutations_need_identity:
  "(path req = ''/api/v1/markets/'' \<longrightarrow> Auth_dispatch dec req r call_next = call_next req r)
   \<and> (method req \<in> {''POST'', ''PUT'', ''DELETE''}
      \<and> find (\<lambda>rt. route_matches rt (method req) (path req)) markets_routes = Some rt
      \<and> state_user req = None \<longrightarrow>
        depends_on_current_user rt
        \<and> Auth_dispatch dec req r (exception_middleware (markets_router endpoint))
            = (Response \<lparr>status = 401, headers = Map.empty,
                         body = Json [(''detail'', ''Authentication required'')]\<rparr>, r)
        \<and> (fst (fst (check_rate_limit (RateLimit_init cfg None None) (get_client_id req) req r)) \<longrightarrow>
             outcome_status (fst (application cfg env (markets_router endpoint) req r))
               = Some 401))"
proof (intro conjI impI)
  assume "path req = ''/api/v1/markets/''"
  then show "Auth_dispatch dec req r call_next = call_next req r"
    by (simp add: Auth_dispatch_def Auth_is_exempt_path_def EXEMPT_PATHS_def)
next
  assume h: "method req \<in> {''POST'', ''PUT'', ''DELETE''}
      \<and> find (\<lambda>rt. route_matches rt (method req) (path req)) markets_routes = Some rt
      \<and> state_user req = None"
  then have f: "find (\<lambda>rt. route_matches rt (method req) (path req)) markets_routes = Some rt"
    and u: "state_user req = None" by simp_all
  from found_route [OF f] h show d: "depends_on_current_user rt"
    using mutating_routes_depend [of rt] by simp
  from found_route [OF f] have ex: "Auth_is_exempt_path (path req)"
    and nr: "\<not> RateLimit_is_exempt_path (path req)"
    using route_matches_exempt route_matches_not_rate_exempt by blast+
  show "Auth_dispatch dec req r (exception_middleware (markets_router endpoint))
            = (Response \<lparr>status = 401, headers = Map.empty,
                         body = Json [(''detail'', ''Authentication required'')]\<rparr>, r)"
    using ex protected_route_401 [OF f d u] by (simp add: Auth_dispatch_def)
  {
    assume a: "fst (fst (check_rate_limit (RateLimit_init cfg None None) (get_client_id req) req r))"
    let ?req' = "req\<lparr>state_request_id := Some (get_or_generate_request_id (uuid4 env) req)\<rparr>"
    have f': "find (\<lambda>rt. route_matches rt (method ?req') (path ?req')) markets_routes = Some rt"
      using f by simp
    have u': "state_user ?req' = None" using u by simp
    obtain rem r' where c: "check_rate_limit (RateLimit_init cfg None None) (get_client_id req) req r
        = ((True, rem), r')"
      using a by (cases "check_rate_limit (RateLimit_init cfg None None) (get_client_id req) req r")
        auto
    show "outcome_status (fst (application cfg env (markets_router endpoint) req r)) = Some 401"
      using ex nr c protected_route_401 [OF f' d u', of endpoint r']
      by (simp add: application_def pipeline_unfold base_http_middleware_def
          server_error_middleware_def Auth_dispatch_def RateLimit_dispatch_def
          RequestID_dispatch_def set_header_def Let_def)
  }
qed


theorem market_mutations_need_identity_witness:
  "outcome_status
     (fst (Auth_dispatch (decode_as alice_claims) (plain_request ''GET'' ''/api/v1/markets/'' None)
             fresh_store ok_router)) = Some 200
   \<and> Auth_dispatch (decode_as alice_claims) (plain_request ''POST'' ''/api/v1/markets/create'' None)
        fresh_store (exception_middleware (markets_router ok_endpoint))
       = (Response \<lparr>status = 401, headers = Map.empty,
                    body = Json [(''detail'', ''Authentication required'')]\<rparr>, fresh_store)
   \<and> outcome_status
        (fst (application default_settings test_environment (markets_router ok_endpoint)
                (plain_request ''POST'' ''/api/v1/markets/create'' None) fresh_store)) = Some 401
   \<and> Auth_dispatch (decode_as alice_claims) (plain_request ''DELETE'' ''/api/v1/markets/42'' None)
        fresh_store (exception_middleware (markets_router ok_endpoint))
       = (Response \<lparr>status = 401, headers = Map.empty,
                    body = Json [(''detail'', ''Authentication required'')]\<rparr>, fresh_store)"
proof -
  let ?list = "plain_request ''GET'' ''/api/v1/markets/'' None"
  let ?post = "plain_request ''POST'' ''/api/v1/markets/create'' None"
  let ?del = "plain_request ''DELETE'' ''/api/v1/markets/42'' None"
  let ?create = "\<lparr>route_method = ''POST'', route_path = [Lit ''create''],
                   depends_on_current_user = True\<rparr>"
  let ?delete = "\<lparr>route_method = ''DELETE'', route_path = [Param],
                   depends_on_current_user = True\<rparr>"
  have p: "path ?list = ''/api/v1/markets/''"
    by (simp add: plain_request_def)
  have hp: "method ?post \<in> {''POST'', ''PUT'', ''DELETE''}
      \<and> find (\<lambda>rt. route_matches rt (method ?post) (path ?post)) markets_routes = Some ?create
      \<and> state_user ?post = None"
    by (simp add: markets_routes_def route_matches_def plain_request_def)
  have hd: "method ?del \<in> {''POST'', ''PUT'', ''DELETE''}
      \<and> find (\<lambda>rt. route_matches rt (method ?del) (path ?del)) markets_routes = Some ?delete
      \<and> state_user ?del = None"
    by (simp add: markets_routes_def route_matches_def plain_request_def)
  have g: "fst (fst (check_rate_limit (RateLimit_init default_settings None None)
                       (get_client_id ?post) ?post fresh_store))"
    by (simp add: app_defs example_defs)
  note a = mp [OF conjunct1 [OF market_mutations_need_identity
        [where req = ?list and dec = "decode_as alice_claims" and r = fresh_store
           and call_next = ok_router]] p]
  note b = mp [OF conjunct2 [OF market_mutations_need_identity
        [where req = ?post and rt = ?create and dec = "decode_as alice_claims"
           and r = fresh_store and endpoint = ok_endpoint and cfg = default_settings
           and env = test_environment]] hp]
  note c = mp [OF conjunct2 [OF market_mutations_need_identity
        [where req = ?del and rt = ?delete and dec = "decode_as alice_claims"
           and r = fresh_store and endpoint = ok_endpoint and cfg = default_settings
           and env = test_environment]] hd]
  have 1: "outcome_status (fst (Auth_dispatch (decode_as alice_claims) ?list fresh_store ok_router))
      = Some 200"
    by (simp add: a ok_router_def)
  show ?thesis
    by (intro conjI)
       (rule 1, rule conjunct1 [OF conjunct2 [OF b]],
        rule mp [OF conjunct2 [OF conjunct2 [OF b]] g], rule conjunct1 [OF conjunct2 [OF c]])
qed

section \<open>Exempt paths\<close>









section \<open>The rate-limit headers\<close>

lemma digit_char_inj: "a < 10 \<Longrightarrow> b < 10 \<Longrightarrow> digit_char a = digit_char b \<Longrightarrow> a = b"
  unfolding digit_char_def
  by (subst (asm) nth_eq_iff_index_eq) simp_all

lemma str_nat_nonempty: "str_nat n \<noteq> []"
  by (subst str_nat.simps) simp

lemma str_nat_inj: "str_nat n = str_nat m \<Longrightarrow> n = m"
proof (induction n arbitrary: m rule: str_nat.induct)
  case (1 n)
  show ?case
  proof (cases "n < 10")
    case True
    show ?thesis
    proof (cases "m < 10")
      case True
      with \<open>n < 10\<close> "1.prems" show ?thesis
        by (simp add: str_nat.simps [of n] str_nat.simps [of m] digit_char_inj)
    next
      case False
      with \<open>n < 10\<close> "1.prems" str_nat_nonempty [of "m div 10"] show ?thesis
        by (simp add: str_nat.simps [of n] str_nat.simps [of m])
    qed
  next
    case False
    show ?thesis
    proof (cases "m < 10")
      case True
      with \<open>\<not> n < 10\<close> "1.prems" str_nat_nonempty [of "n div 10"] show ?thesis
        by (simp add: str_nat.simps [of n] str_nat.simps [of m])
    next
      case mf: False
      with False "1.prems" have e: "str_nat (n div 10) = str_nat (m div 10)"
        and d: "digit_char (n mod 10) = digit_char (m mod 10)"
        by (simp_all add: str_nat.simps [of n] str_nat.simps [of m])
      from "1.IH" [OF False e] have "n div 10 = m div 10" .
      moreover from d have "n mod 10 = m mod 10"
        by (rule digit_char_inj [rotated 2]) simp_all
      ultimately show ?thesis
        by (metis div_mult_mod_eq)
    qed
  qed
qed

lemma digit_not_minus: "d < 10 \<Longrightarrow> digit_char d \<noteq> CHR ''-''"
proof -
  assume "d < 10"
  then have "d \<in> {0, 1, 2, 3, 4, 5, 6, 7, 8, 9}" by auto
  then show ?thesis by (auto simp: digit_char_def)
qed

lemma str_nat_hd: "hd (str_nat n) \<noteq> CHR ''-''"
proof (induction n rule: str_nat.induct)
  case (1 n)
  show ?case
  proof (cases "n < 10")
    case True
    then show ?thesis by (simp add: str_nat.simps [of n] digit_not_minus)
  next
    case False
    with "1.IH" str_nat_nonempty [of "n div 10"] show ?thesis
      by (simp add: str_nat.simps [of n])
  qed
qed

lemma str_nat_not_minus: "str_nat n \<noteq> CHR ''-'' # xs"
  using str_nat_hd [of n] by (cases "str_nat n") auto

lemma str_int_inj: "str_int a = str_int b \<Longrightarrow> a = b"
proof -
  assume eq: "str_int a = str_int b"
  consider "a < 0" "b < 0" | "a < 0" "\<not> b < 0" | "\<not> a < 0" "b < 0" | "\<not> a < 0" "\<not> b < 0"
    by blast
  then show ?thesis
  proof cases
    case 1
    with eq have "str_nat (nat (- a)) = str_nat (nat (- b))" by (simp add: str_int_def)
    then have "nat (- a) = nat (- b)" by (rule str_nat_inj)
    with 1 show ?thesis by simp
  next
    case 2
    with eq have "str_nat (nat b) = CHR ''-'' # str_nat (nat (- a))" by (simp add: str_int_def)
    then show ?thesis by (simp add: str_nat_not_minus)
  next
    case 3
    with eq have "str_nat (nat a) = CHR ''-'' # str_nat (nat (- b))" by (simp add: str_int_def)
    then show ?thesis by (simp add: str_nat_not_minus)
  next
    case 4
    with eq have "str_nat (nat a) = str_nat (nat b)" by (simp add: str_int_def)
    then have "nat a = nat b" by (rule str_nat_inj)
    with 4 show ?thesis by simp
  qed
qed

text \<open>
  C10. On every response that the rate-limit middleware admits on a path it does not
  exempt, whether the request was counted or admitted because the store failed,
  \<^verbatim>\<open>X-RateLimit-Limit\<close> is the text of \<^verbatim>\<open>requests_per_minute\<close>, while
  \<^verbatim>\<open>X-RateLimit-Remaining\<close> is the text of the remaining count, which comes from the
  limit of the route: that limit less the count, or that limit itself when the store
  cannot be reached. Whenever the limit of the route is not \<^verbatim>\<open>requests_per_minute\<close>,
  the limit header is not the limit the decision used.
\<close>

theorem rate_limit_headers_disagree:
  assumes "\<not> RateLimit_is_exempt_path (path req)"
    and "check_rate_limit self (get_client_id req) req r = ((True, remaining), r')"
    and "fst (call_next req r') = Response resp"
  shows "outcome_header ''X-RateLimit-Limit'' (fst (RateLimit_dispatch self req r call_next))
           = Some (str_int (requests_per_minute self))
       \<and> outcome_header ''X-RateLimit-Remaining'' (fst (RateLimit_dispatch self req r call_next))
           = Some (str_int remaining)
       \<and> (fst (get_limits_for_path self (path req) (method req)) \<noteq> requests_per_minute self \<longrightarrow>
            outcome_header ''X-RateLimit-Limit'' (fst (RateLimit_dispatch self req r call_next))
              \<noteq> Some (str_int (fst (get_limits_for_path self (path req) (method req)))))
       \<and> (up r \<and> fst (apply_command
                        (INCRBY (''rate_limit:'' @ get_client_id req @ '':'' @ path req) 1) r)
                    = Inr (Int_reply n) \<longrightarrow>
            remaining = fst (get_limits_for_path self (path req) (method req)) - n)
       \<and> (\<not> up r \<longrightarrow> remaining = fst (get_limits_for_path self (path req) (method req)))"
proof -
  obtain limit window where lw: "get_limits_for_path self (path req) (method req) = (limit, window)"
    by (cases "get_limits_for_path self (path req) (method req)")
  let ?key = "''rate_limit:'' @ get_client_id req @ '':'' @ path req"
  have c: "check_rate_limit self (get_client_id req) req r = is_allowed r ?key limit window"
    by (simp add: check_rate_limit_def lw)
  obtain out r'' where cn: "call_next req r' = (out, r'')"
    by (cases "call_next req r'")
  with assms(3) have out: "out = Response resp" by simp
  have d: "fst (RateLimit_dispatch self req r call_next)
     = set_header ''X-RateLimit-Reset'' ''60''
         (set_header ''X-RateLimit-Remaining'' (str_int remaining)
            (set_header ''X-RateLimit-Limit'' (str_int (requests_per_minute self)) (Response resp)))"
    unfolding RateLimit_dispatch_def Let_def assms(2)
    using assms(1) cn out by simp
  have counted: "remaining = limit - n"
    if "up r \<and> fst (apply_command (INCRBY ?key 1) r) = Inr (Int_reply n)"
  proof -
    from that is_allowed_result [of r ?key n limit window]
    have "fst (is_allowed r ?key limit window) = (n \<le> limit, max 0 (limit - n))" by simp
    with assms(2) c show ?thesis by auto
  qed
  have failed: "remaining = limit" if "\<not> up r"
    using that assms(2) c by (simp add: is_allowed_down)
  show ?thesis
    using str_int_inj [of "requests_per_minute self" limit] counted failed
    by (auto simp: d lw set_header_def)
qed


theorem rate_limit_headers_disagree_witness:
  "fst (get_limits_for_path (RateLimit_init default_settings None None)
          ''/api/v1/markets/create'' ''POST'') = 5
   \<and> outcome_header ''X-RateLimit-Limit''
        (fst (RateLimit_dispatch (RateLimit_init default_settings None None)
               (plain_request ''POST'' ''/api/v1/markets/create'' None) fresh_store ok_router))
       = Some ''100''
   \<and> outcome_header ''X-RateLimit-Remaining''
        (fst (RateLimit_dispatch (RateLimit_init default_settings None None)
               (plain_request ''POST'' ''/api/v1/markets/create'' None) fresh_store ok_router))
       = Some ''4''
   \<and> outcome_header ''X-RateLimit-Limit''
        (fst (RateLimit_dispatch (RateLimit_init default_settings None None)
               (plain_request ''POST'' ''/api/v1/markets/create'' None)
               (fresh_store\<lparr>up := False\<rparr>) ok_router))
       = Some ''100''
   \<and> outcome_header ''X-RateLimit-Remaining''
        (fst (RateLimit_dispatch (RateLimit_init default_settings None None)
               (plain_request ''POST'' ''/api/v1/markets/create'' None)
               (fresh_store\<lparr>up := False\<rparr>) ok_router))
       = Some ''5''"
proof -
  let ?self = "RateLimit_init default_settings None None"
  let ?req = "plain_request ''POST'' ''/api/v1/markets/create'' None"
  let ?down = "fresh_store\<lparr>up := False\<rparr>"
  let ?resp = "\<lparr>status = 200, headers = Map.empty, body = Json [(''status'', ''healthy'')]\<rparr>"
  have l: "fst (get_limits_for_path ?self ''/api/v1/markets/create'' ''POST'') = 5"
    by (simp add: get_limits_for_path_def)
  have rpm: "requests_per_minute ?self = 100"
    by (simp add: RateLimit_init_def default_settings_def)
  have h1: "\<not> RateLimit_is_exempt_path (path ?req)"
    by (simp add: RateLimit_is_exempt_path_def plain_request_def)
  have f1: "fst (check_rate_limit ?self (get_client_id ?req) ?req fresh_store) = (True, 4)"
    by (simp add: app_defs example_defs)
  have f2: "fst (check_rate_limit ?self (get_client_id ?req) ?req ?down) = (True, 5)"
    by (simp add: app_defs example_defs)
  have c1: "check_rate_limit ?self (get_client_id ?req) ?req fresh_store
      = ((True, 4), snd (check_rate_limit ?self (get_client_id ?req) ?req fresh_store))"
    using f1 by (simp add: prod_eq_iff)
  have c2: "check_rate_limit ?self (get_client_id ?req) ?req ?down
      = ((True, 5), snd (check_rate_limit ?self (get_client_id ?req) ?req ?down))"
    using f2 by (simp add: prod_eq_iff)
  have o: "fst (ok_router ?req x) = Response ?resp" for x
    by (simp add: ok_router_def)
  have s: "str_int 100 = ''100''" "str_int 4 = ''4''" "str_int 5 = ''5''"
    by (simp_all add: str_int_def str_nat.simps digit_char_def)
  note t1 = rate_limit_headers_disagree [where call_next = ok_router and n = 1, OF h1 c1 o]
  note t2 = rate_limit_headers_disagree [where call_next = ok_router and n = 1, OF h1 c2 o]
  show ?thesis
    by (intro conjI)
       (rule l, simp add: conjunct1 [OF t1] rpm s, simp add: conjunct1 [OF conjunct2 [OF t1]] s,
        simp add: conjunct1 [OF t2] rpm s, simp add: conjunct1 [OF conjunct2 [OF t2]] s)
qed


section \<open>The keys that reach the store\<close>

lemma startswith_append: "startswith (p @ s) p"
  by (induction p) simp_all

lemma namespaced_make_key: "key_of c = make_key cache k \<Longrightarrow> namespaced c"
  using startswith_append [of "prefix cache @ '':''" k]
  by (simp add: namespaced_def make_key_def)

lemma sent_apply_command: "sent (snd (apply_command cmd r)) = sent r"
  by (cases cmd) (auto simp: remove_key_def split: option.splits json.splits)

lemma sent_client_call:
  "sent (snd (client_call cmd r)) = sent r @ (if up r then [cmd] else [])"
  using sent_apply_command [of cmd r]
  by (cases "apply_command cmd r") (simp add: client_call_def)

lemma issued_eq: "sent r' = sent r @ cmds \<Longrightarrow> issued r r' = cmds"
  by (simp add: issued_def)

lemma issued_client_call: "issued r (snd (client_call cmd r)) = (if up r then [cmd] else [])"
  by (rule issued_eq) (rule sent_client_call)

lemma snd_cache_exists: "snd (cache_exists c k r) = snd (client_call (EXISTS (make_key c k)) r)"
  by (simp add: cache_exists_def split: prod.splits sum.splits reply.splits)

lemma snd_cache_get: "snd (cache_get c k r) = snd (client_call (GET (make_key c k)) r)"
  by (simp add: cache_get_def split: prod.splits sum.splits reply.splits option.splits)

lemma snd_cache_set: "snd (cache_set c k v e r) = snd (client_call (SET (make_key c k) v e) r)"
  by (simp add: cache_set_def split: prod.splits sum.splits)

lemma snd_cache_delete: "snd (cache_delete c k r) = snd (client_call (DEL (make_key c k)) r)"
  by (simp add: cache_delete_def split: prod.splits sum.splits)

lemma snd_cache_increment: "snd (cache_increment c k n r) = snd (client_call (INCRBY (make_key c k) n) r)"
  by (simp add: cache_increment_def split: prod.splits sum.splits reply.splits)

lemma snd_cache_expire: "snd (cache_expire c k n r) = snd (client_call (EXPIRE (make_key c k) n) r)"
  by (simp add: cache_expire_def split: prod.splits sum.splits reply.splits)

lemmas snd_cache = snd_cache_exists snd_cache_get snd_cache_set snd_cache_delete
  snd_cache_increment snd_cache_expire

lemma namespaced_commands:
  "namespaced (EXISTS (make_key cache k))" "namespaced (GET (make_key cache k))"
  "namespaced (SET (make_key cache k) v e)" "namespaced (DEL (make_key cache k))"
  "namespaced (INCRBY (make_key cache k) n)" "namespaced (EXPIRE (make_key cache k) n)"
  by (simp_all add: namespaced_make_key)

lemma validate_sent: "list_all namespaced (issued r (snd (validate_token dec t r)))"
  by (simp add: validate_token_def Let_def split_beta snd_cache sent_client_call client_call_up
      issued_def namespaced_commands
      split: bool.splits jwt_result.splits option.splits)

lemma logout_sent: "list_all namespaced (issued r (snd (logout_user cfg uid t r)))"
  by (simp add: logout_user_def Let_def split_beta snd_cache sent_client_call client_call_up
      issued_def namespaced_commands)

lemma is_allowed_sent:
  "sent (snd (is_allowed r key limit window))
     = sent r @ (if up r then [INCRBY key 1, EXPIRE key window] else [])"
proof (cases "up r")
  case True
  then show ?thesis
    by (simp add: is_allowed_store pipeline_execute_store run_queued_store run_queued_empty sent_apply_command
        del: apply_command.simps run_queued.simps)
next
  case False
  then show ?thesis by (simp add: is_allowed_down)
qed

lemma window_is_60: "snd (get_limits_for_path self p m) = 60"
  by (simp add: get_limits_for_path_def Let_def)

lemma check_rate_limit_sent:
  "issued r (snd (check_rate_limit self cid req r))
     = (if up r
        then [INCRBY (''rate_limit:'' @ cid @ '':'' @ path req) 1,
              EXPIRE (''rate_limit:'' @ cid @ '':'' @ path req) 60]
        else [])"
  using window_is_60 [of self "path req" "method req"]
  by (cases "get_limits_for_path self (path req) (method req)")
     (simp add: check_rate_limit_def is_allowed_sent issued_def)

text \<open>
  C8, as the code has it. Every method of the cache facade sends its one command under
  the prefixed key, so every key that \<^verbatim>\<open>_validate_token\<close> and \<^verbatim>\<open>logout_user\<close> read or
  write (the blacklist and identity keys) starts with the namespace. The rate limiter does
  not go through the facade: \<^verbatim>\<open>_check_rate_limit\<close> sends \<^verbatim>\<open>INCR\<close> and \<^verbatim>\<open>EXPIRE\<close>
  on the raw client under the key \<^verbatim>\<open>rate_limit:<client_id>:<path>\<close> as it is, without
  the namespace.
\<close>

theorem facade_keys_namespaced_rate_limit_keys_raw:
  "issued r (snd (cache_get self k r)) = (if up r then [GET (make_key self k)] else [])
   \<and> issued r (snd (cache_set self k v e r)) = (if up r then [SET (make_key self k) v e] else [])
   \<and> issued r (snd (cache_delete self k r)) = (if up r then [DEL (make_key self k)] else [])
   \<and> issued r (snd (cache_exists self k r)) = (if up r then [EXISTS (make_key self k)] else [])
   \<and> issued r (snd (cache_increment self k n r))
       = (if up r then [INCRBY (make_key self k) n] else [])
   \<and> issued r (snd (cache_expire self k n r)) = (if up r then [EXPIRE (make_key self k) n] else [])
   \<and> list_all namespaced (issued r (snd (validate_token dec token r)))
   \<and> list_all namespaced (issued r (snd (logout_user cfg uid token r)))
   \<and> issued r (snd (check_rate_limit rl cid req r))
       = (if up r
          then [INCRBY (''rate_limit:'' @ cid @ '':'' @ path req) 1,
                EXPIRE (''rate_limit:'' @ cid @ '':'' @ path req) 60]
          else [])
   \<and> \<not> startswith (''rate_limit:'' @ cid @ '':'' @ path req) (prefix cache @ '':'')"
  by (simp add: snd_cache issued_client_call validate_sent logout_sent check_rate_limit_sent
      cache_def)

theorem facade_keys_namespaced_rate_limit_keys_raw_witness:
  "map key_of (issued fresh_store
                 (snd (validate_token (decode_as alice_claims) ''tok'' fresh_store)))
     = [''predictpesa:blacklist:tok'', ''predictpesa:user:alice'', ''predictpesa:user:alice'']
   \<and> list_all namespaced
         (issued fresh_store (snd (validate_token (decode_as alice_claims) ''tok'' fresh_store)))
   \<and> map key_of (issued fresh_store
                   (snd (logout_user default_settings ''alice'' ''tok'' fresh_store)))
       = [''predictpesa:blacklist:tok'', ''predictpesa:user:alice'']
   \<and> list_all namespaced
         (issued fresh_store (snd (logout_user default_settings ''alice'' ''tok'' fresh_store)))"
proof -
  have a: "map key_of (issued fresh_store
                 (snd (validate_token (decode_as alice_claims) ''tok'' fresh_store)))
     = [''predictpesa:blacklist:tok'', ''predictpesa:user:alice'', ''predictpesa:user:alice'']"
    by (simp add: example_defs issued_def)
  have b: "map key_of (issued fresh_store
                   (snd (logout_user default_settings ''alice'' ''tok'' fresh_store)))
       = [''predictpesa:blacklist:tok'', ''predictpesa:user:alice'']"
    by (simp add: example_defs issued_def)
  from facade_keys_namespaced_rate_limit_keys_raw
         [of fresh_store cache "''k''" "JBool True" None 1 "decode_as alice_claims" "''tok''"
             default_settings "''alice''"]
  have "list_all namespaced
         (issued fresh_store (snd (validate_token (decode_as alice_claims) ''tok'' fresh_store)))
     \<and> list_all namespaced
         (issued fresh_store (snd (logout_user default_settings ''alice'' ''tok'' fresh_store)))"
    by blast
  with a b show ?thesis by blast
qed

text \<open>As the specification words it, the property fails for the rate-limit keys.\<close>

theorem rate_limit_key_counterexample:
  "issued fresh_store
     (snd (check_rate_limit (RateLimit_init default_settings None None)
             (get_client_id (plain_request ''GET'' ''/api/v1/users/me'' None))
             (plain_request ''GET'' ''/api/v1/users/me'' None) fresh_store))
     = [INCRBY ''rate_limit:ip:10.0.0.1:/api/v1/users/me'' 1,
        EXPIRE ''rate_limit:ip:10.0.0.1:/api/v1/users/me'' 60]
   \<and> \<not> list_all namespaced
         (issued fresh_store
            (snd (check_rate_limit (RateLimit_init default_settings None None)
                    (get_client_id (plain_request ''GET'' ''/api/v1/users/me'' None))
                    (plain_request ''GET'' ''/api/v1/users/me'' None) fresh_store)))"
  by (simp add: check_rate_limit_sent fresh_store_def get_client_id_def get_client_ip_def
      plain_request_def namespaced_def cache_def)

end
